theory Spec2Isabelle
  imports Complex_Main "HOL-Library.Sublist"
begin

section \<open>JavaScript strings and arrays\<close>

text \<open>
  The scanner, the search and the audio table work on \<^typ>\<open>string\<close>: one \<^typ>\<open>char\<close> per
  UTF-16 code unit, for texts whose code units are below 256 (Latin-1).  The helpers
  below follow the ECMAScript definitions of the methods the source calls, on that range.
  The Braille engine takes any JavaScript string: its texts are lists of UTF-16 code
  units (\<^typ>\<open>nat list\<close>), see the end of this section.
\<close>

definition code :: "char \<Rightarrow> nat" where
  "code c = of_char c"

text \<open>White space and line terminators below 256: TAB, LF, VT, FF, CR, SP, NBSP.\<close>

definition isWhiteSpace :: "char \<Rightarrow> bool" where
  "isWhiteSpace c = (code c \<in> {9, 10, 11, 12, 13, 32, 160})"

text \<open>The characters of \<^verbatim>\<open>\w\<close> and of \<^verbatim>\<open>[a-zA-Z0-9_]\<close>.\<close>

definition isWordChar :: "char \<Rightarrow> bool" where
  "isWordChar c =
     ((97 \<le> code c \<and> code c \<le> 122) \<or> (65 \<le> code c \<and> code c \<le> 90)
      \<or> (48 \<le> code c \<and> code c \<le> 57) \<or> code c = 95)"

definition isDigit :: "char \<Rightarrow> bool" where
  "isDigit c = (48 \<le> code c \<and> code c \<le> 57)"

text \<open>\<^verbatim>\<open>.\<close> of a regular expression: any character but a line terminator (LF, CR).\<close>

definition isLineTerminator :: "char \<Rightarrow> bool" where
  "isLineTerminator c = (code c = 10 \<or> code c = 13)"

text \<open>
  \<^verbatim>\<open>toLowerCase\<close> on Latin-1: A to Z, and the letters from U+00C0 to U+00DE other
  than the multiplication sign U+00D7, move up by 32.
\<close>

definition lowerChar :: "char \<Rightarrow> char" where
  "lowerChar c =
     (if (65 \<le> code c \<and> code c \<le> 90) \<or> (192 \<le> code c \<and> code c \<le> 222 \<and> code c \<noteq> 215)
      then char_of (code c + 32) else c)"

definition toLowerCase :: "string \<Rightarrow> string" where
  "toLowerCase s = map lowerChar s"

text \<open>
  \<^verbatim>\<open>w.charAt(0).toUpperCase() + w.slice(1)\<close>, which the source applies to its own
  keywords and element kinds only (ASCII lower-case letters).
\<close>

definition upperChar :: "char \<Rightarrow> char" where
  "upperChar c = (if 97 \<le> code c \<and> code c \<le> 122 then char_of (code c - 32) else c)"

definition capitalize :: "string \<Rightarrow> string" where
  "capitalize w = (case w of [] \<Rightarrow> [] | c # cs \<Rightarrow> upperChar c # cs)"

definition trim :: "string \<Rightarrow> string" where
  "trim s = rev (dropWhile isWhiteSpace (rev (dropWhile isWhiteSpace s)))"

text \<open>\<^verbatim>\<open>s.split(c)\<close> for a one-character separator: the empty string gives one empty piece.\<close>

fun js_split :: "'a \<Rightarrow> 'a list \<Rightarrow> 'a list list" where
  "js_split c [] = [[]]"
| "js_split c (x # xs) =
     (if x = c then [] # js_split c xs
      else (case js_split c xs of [] \<Rightarrow> [[x]] | w # ws \<Rightarrow> (x # w) # ws))"

text \<open>\<^verbatim>\<open>s.includes(q)\<close> and \<^verbatim>\<open>s.indexOf(q)\<close> (\<open>-1\<close> when \<open>q\<close> does not occur).\<close>

fun js_includes :: "string \<Rightarrow> string \<Rightarrow> bool" where
  "js_includes [] q = (q = [])"
| "js_includes (c # cs) q = (prefix q (c # cs) \<or> js_includes cs q)"

fun indexOfFrom :: "string \<Rightarrow> string \<Rightarrow> nat \<Rightarrow> int" where
  "indexOfFrom [] q i = (if q = [] then int i else -1)"
| "indexOfFrom (c # cs) q i = (if prefix q (c # cs) then int i else indexOfFrom cs q (Suc i))"

definition indexOf :: "string \<Rightarrow> string \<Rightarrow> int" where
  "indexOf s q = indexOfFrom s q 0"

text \<open>Decimal digits of a number, as template literals print it.\<close>

definition digitChar :: "nat \<Rightarrow> char" where
  "digitChar d = ''0123456789'' ! d"

fun toString :: "nat \<Rightarrow> string" where
  "toString n = (if n < 10 then [digitChar n] else toString (n div 10) @ [digitChar (n mod 10)])"

declare toString.simps [simp del]

text \<open>
  \<^verbatim>\<open>Array.prototype.sort(compare)\<close>: the sort is stable, and for a consistent comparison
  its result is the one stable ordering; it is computed here by insertion from the right,
  an element going before the first one it does not compare greater than.
\<close>

fun insort_cmp :: "('a \<Rightarrow> 'a \<Rightarrow> int) \<Rightarrow> 'a \<Rightarrow> 'a list \<Rightarrow> 'a list" where
  "insort_cmp cmp x [] = [x]"
| "insort_cmp cmp x (y # ys) = (if cmp x y \<le> 0 then x # y # ys else y # insort_cmp cmp x ys)"

definition js_sort :: "('a \<Rightarrow> 'a \<Rightarrow> int) \<Rightarrow> 'a list \<Rightarrow> 'a list" where
  "js_sort cmp xs = foldr (insort_cmp cmp) xs []"

subsection \<open>Strings of arbitrary code units\<close>

text \<open>
  A JavaScript string in general: the list of its UTF-16 code units.  \<open>units\<close> reads a
  string literal of the source as such a list.
\<close>

definition units :: "string \<Rightarrow> nat list" where
  "units s = map code s"

text \<open>
  \<^verbatim>\<open>\s\<close> of a regular expression, on code units: the white space and line terminators
  of ECMAScript.
\<close>

definition isWhiteSpaceUnit :: "nat \<Rightarrow> bool" where
  "isWhiteSpaceUnit u =
     (u \<in> {9, 10, 11, 12, 13, 32, 160, 0x1680, 0x2028, 0x2029, 0x202F, 0x205F, 0x3000, 0xFEFF}
      \<or> (0x2000 \<le> u \<and> u \<le> 0x200A))"

text \<open>\<^verbatim>\<open>[a-zA-Z0-9_]\<close>, and \<^verbatim>\<open>\d\<close> (also \<^verbatim>\<open>char >= '0' && char <= '9'\<close>), on code units.\<close>

definition isWordUnit :: "nat \<Rightarrow> bool" where
  "isWordUnit u = ((97 \<le> u \<and> u \<le> 122) \<or> (65 \<le> u \<and> u \<le> 90) \<or> (48 \<le> u \<and> u \<le> 57) \<or> u = 95)"

definition isDigitUnit :: "nat \<Rightarrow> bool" where
  "isDigitUnit u = (48 \<le> u \<and> u \<le> 57)"

text \<open>
  \<^verbatim>\<open>toLowerCase\<close> on code units.  On a string whose code units are all below 256 it
  maps each unit by itself: A to Z and the letters from U+00C0 to U+00DE other than U+00D7
  move up by 32, as above.  On any other string the result is the one of the Unicode
  algorithm of the JavaScript engine (it works on code points, may change the length and
  looks at the neighbours of a capital sigma); that function is the argument
  \<open>hostLowerCase\<close>, about which nothing is assumed.
\<close>

definition lowerUnit :: "nat \<Rightarrow> nat" where
  "lowerUnit u =
     (if (65 \<le> u \<and> u \<le> 90) \<or> (192 \<le> u \<and> u \<le> 222 \<and> u \<noteq> 215) then u + 32 else u)"

definition toLowerCaseUnits :: "(nat list \<Rightarrow> nat list) \<Rightarrow> nat list \<Rightarrow> nat list" where
  "toLowerCaseUnits hostLowerCase s =
     (if list_all (\<lambda>u. u < 256) s then map lowerUnit s else hostLowerCase s)"

section \<open>Regular expressions\<close>

text \<open>
  The regular expressions of the source, as syntax trees with the backtracking semantics
  of ECMAScript: a match is searched depth first, a greedy quantifier tries the longest
  repetition first, an alternation its left branch first.  \<open>rx_match\<close> lists every way a
  pattern matches from a position, in that order, with the end position and the captured
  groups; the head of the list is the match the engine reports.  Quantifiers \<^verbatim>\<open>*\<close> and
  \<^verbatim>\<open>+\<close> stand on character classes only and \<^verbatim>\<open>?\<close> on patterns that match no empty
  string, which covers every expression of the source.
\<close>

datatype cls = Dot | Space | WordCh | OneOf string | NoneOf string | Union cls cls

primrec cls_mem :: "cls \<Rightarrow> char \<Rightarrow> bool" where
  "cls_mem Dot c = (\<not> isLineTerminator c)"
| "cls_mem Space c = isWhiteSpace c"
| "cls_mem WordCh c = isWordChar c"
| "cls_mem (OneOf cs) c = (c \<in> set cs)"
| "cls_mem (NoneOf cs) c = (c \<notin> set cs)"
| "cls_mem (Union a b) c = (cls_mem a c \<or> cls_mem b c)"

datatype rx =
    Eps
  | Lit string
  | LitCI string
  | In cls
  | Star cls
  | Plus cls
  | Opt rx
  | Seq rx rx
  | Alt rx rx
  | Group nat rx
  | Bol
  | WordB

type_synonym captures = "nat \<Rightarrow> string option"

text \<open>\<^verbatim>\<open>\b\<close> at position \<open>i\<close>: exactly one of the characters before and at \<open>i\<close> is a word character.\<close>

definition wordBoundary :: "string \<Rightarrow> nat \<Rightarrow> bool" where
  "wordBoundary s i =
     ((0 < i \<and> i \<le> length s \<and> isWordChar (s ! (i - 1))) \<noteq> (i < length s \<and> isWordChar (s ! i)))"

definition run_length :: "cls \<Rightarrow> string \<Rightarrow> nat \<Rightarrow> nat" where
  "run_length k s i = length (takeWhile (cls_mem k) (drop i s))"

primrec rx_match :: "rx \<Rightarrow> string \<Rightarrow> nat \<times> captures \<Rightarrow> (nat \<times> captures) list" where
  "rx_match Eps s st = [st]"
| "rx_match (Lit w) s st =
     (if prefix w (drop (fst st) s) then [(fst st + length w, snd st)] else [])"
| "rx_match (LitCI w) s st =
     (if prefix (toLowerCase w) (toLowerCase (drop (fst st) s))
      then [(fst st + length w, snd st)] else [])"
| "rx_match (In k) s st =
     (case drop (fst st) s of [] \<Rightarrow> [] | c # _ \<Rightarrow> if cls_mem k c then [(Suc (fst st), snd st)] else [])"
| "rx_match (Star k) s st =
     map (\<lambda>n. (fst st + n, snd st)) (rev [0 ..< Suc (run_length k s (fst st))])"
| "rx_match (Plus k) s st =
     map (\<lambda>n. (fst st + n, snd st)) (rev [1 ..< Suc (run_length k s (fst st))])"
| "rx_match (Opt r) s st = rx_match r s st @ [st]"
| "rx_match (Seq a b) s st = concat (map (rx_match b s) (rx_match a s st))"
| "rx_match (Alt a b) s st = rx_match a s st @ rx_match b s st"
| "rx_match (Group g r) s st =
     map (\<lambda>e. (fst e, (snd e)(g \<mapsto> take (fst e - fst st) (drop (fst st) s)))) (rx_match r s st)"
| "rx_match Bol s st = (if fst st = 0 then [st] else [])"
| "rx_match WordB s st = (if wordBoundary s (fst st) then [st] else [])"

definition rx_seq :: "rx list \<Rightarrow> rx" where
  "rx_seq rs = foldr Seq rs Eps"

text \<open>
  \<^verbatim>\<open>RegExp.prototype.exec\<close> from index \<open>from\<close>: the leftmost start position with a
  match, and there the first match in backtracking order: (start, end, captures).
\<close>

definition rx_exec :: "rx \<Rightarrow> string \<Rightarrow> nat \<Rightarrow> (nat \<times> nat \<times> captures) option" where
  "rx_exec r s from =
     (case List.find (\<lambda>i. rx_match r s (i, Map.empty) \<noteq> []) [from ..< Suc (length s)] of
        None \<Rightarrow> None
      | Some i \<Rightarrow> (case rx_match r s (i, Map.empty) of
                    [] \<Rightarrow> None
                  | e # _ \<Rightarrow> Some (i, fst e, snd e)))"

text \<open>\<^verbatim>\<open>s.match(r)\<close> for a pattern without the \<^verbatim>\<open>g\<close> flag: the captures of the first match.\<close>

definition js_match :: "rx \<Rightarrow> string \<Rightarrow> captures option" where
  "js_match r s = (case rx_exec r s 0 of None \<Rightarrow> None | Some m \<Rightarrow> Some (snd (snd m)))"

text \<open>A group that takes part in every match of its pattern.\<close>

definition group :: "captures \<Rightarrow> nat \<Rightarrow> string" where
  "group c g = (case c g of None \<Rightarrow> [] | Some w \<Rightarrow> w)"

section \<open>Data model of the navigation helper\<close>

text \<open>
  The navigation helper (\<^verbatim>\<open>NavigationHelper\<close>) keeps a list of code elements, a
  navigation history with a cursor, and the selected element.  JavaScript strings are
  modelled as \<^typ>\<open>string\<close>: one \<^typ>\<open>char\<close> per UTF-16 code unit, for texts whose code
  units are below 256.  Optional fields of the TypeScript interfaces are options; the
  fields \<^verbatim>\<open>returnType\<close>, \<^verbatim>\<open>visibility\<close> and \<^verbatim>\<open>isStatic\<close> of an element, which no
  function of the source writes or reads, are left out, and \<^verbatim>\<open>id\<close> is \<open>ident\<close>.
\<close>

datatype kind = Function | Class | Variable | Comment | Import | Export | Loop | Conditional

datatype CodeElement = CodeElement
  (ident: string) (type: kind) (name: string)
  (line: nat) (column: nat) (endLine: nat) (endColumn: nat)
  (scope: string)
  (params: "string list option")
  (isAsync: "bool option")
  (description: "string option")
  (complexity: "nat option")
  (children: "CodeElement list option")

section \<open>The structural scanner\<close>

datatype error = SyntaxError | Unsupported

subsection \<open>The complexity heuristic\<close>

text \<open>
  \<^verbatim>\<open>new RegExp(`\\b${keyword}\\b`, 'gi')\<close>: the pattern text is parsed as ECMAScript
  does, for the syntax the keywords of the source use.  \<^verbatim>\<open>|\<close> separates alternatives;
  in an alternative \<^verbatim>\<open>\b\<close> is an assertion, \<^verbatim>\<open>?\<close> makes the atom before it optional,
  and any other character that is not a syntax character is a literal (compared case
  insensitively under the \<^verbatim>\<open>i\<close> flag).  A quantifier with no atom before it (at the
  start of an alternative, or after an assertion, which is not an atom) is the syntax
  error "nothing to repeat".  The rest of the pattern syntax (other escapes, other
  quantifiers, classes, groups, anchors) occurs in no keyword and is \<open>Unsupported\<close> here.
\<close>

definition backslash :: char where
  "backslash = CHR 0x5C"

fun parseAlternative :: "string \<Rightarrow> error + rx" where
  "parseAlternative [] = Inr Eps"
| "parseAlternative (c # cs) =
     (if c = backslash then
        (case cs of
           [] \<Rightarrow> Inl Unsupported
         | e # rest \<Rightarrow>
             if e = CHR ''b''
             then (case parseAlternative rest of Inl err \<Rightarrow> Inl err | Inr r \<Rightarrow> Inr (Seq WordB r))
             else Inl Unsupported)
      else if c \<in> set ''?*+'' then Inl SyntaxError
      else if c \<in> set ''^$.()[]{}'' then Inl Unsupported
      else
        (case cs of
           [] \<Rightarrow> Inr (Seq (LitCI [c]) Eps)
         | q # rest \<Rightarrow>
             if q = CHR ''?''
             then (if prefix ''?'' rest then Inl Unsupported
                   else (case parseAlternative rest of
                           Inl err \<Rightarrow> Inl err | Inr r \<Rightarrow> Inr (Seq (Opt (LitCI [c])) r)))
             else if q \<in> set ''*+{'' then Inl Unsupported
             else (case parseAlternative cs of
                     Inl err \<Rightarrow> Inl err | Inr r \<Rightarrow> Inr (Seq (LitCI [c]) r))))"

fun parseDisjunction :: "string list \<Rightarrow> error + rx" where
  "parseDisjunction [] = Inr Eps"
| "parseDisjunction [a] = parseAlternative a"
| "parseDisjunction (a # as) =
     (case parseAlternative a of
        Inl err \<Rightarrow> Inl err
      | Inr r \<Rightarrow> (case parseDisjunction as of Inl err \<Rightarrow> Inl err | Inr r' \<Rightarrow> Inr (Alt r r')))"

definition RegExp_gi :: "string \<Rightarrow> error + rx" where
  "RegExp_gi pattern = parseDisjunction (js_split (CHR ''|'') pattern)"

text \<open>
  All matches of a global pattern, as \<^verbatim>\<open>s.match(r)\<close> and \<^verbatim>\<open>s.replace(r, ..)\<close> collect
  them: the search resumes at the end of the last match, one further after an empty
  match.  An entry is (start, end).
\<close>

function matchAll :: "rx \<Rightarrow> string \<Rightarrow> nat \<Rightarrow> (nat \<times> nat) list" where
  "matchAll r s from =
     (case rx_exec r s from of
        None \<Rightarrow> []
      | Some m \<Rightarrow>
          if fst m < from \<or> fst (snd m) < fst m \<or> length s < fst m then []
          else (fst m, fst (snd m))
               # matchAll r s (if fst (snd m) = fst m then Suc (fst (snd m)) else fst (snd m)))"
  by pat_completeness auto
termination
  by (relation "measure (\<lambda>(r, s, from). Suc (length s) - from)") auto

declare matchAll.simps [simp del]

text \<open>\<^verbatim>\<open>s.replace(r, '')\<close> for a global pattern: the text between the matches.\<close>

fun removeMatches :: "string \<Rightarrow> nat \<Rightarrow> (nat \<times> nat) list \<Rightarrow> string" where
  "removeMatches s pos [] = drop pos s"
| "removeMatches s pos (m # ms) = take (fst m - pos) (drop pos s) @ removeMatches s (snd m) ms"

definition replaceAll :: "rx \<Rightarrow> string \<Rightarrow> string" where
  "replaceAll r s = removeMatches s 0 (matchAll r s 0)"

text \<open>\<^verbatim>\<open>s.replace(r, '')\<close> for a pattern without the \<^verbatim>\<open>g\<close> flag: the first match is removed.\<close>

definition replaceFirst :: "rx \<Rightarrow> string \<Rightarrow> string" where
  "replaceFirst r s =
     (case rx_exec r s 0 of None \<Rightarrow> s | Some m \<Rightarrow> take (fst m) s @ drop (fst (snd m)) s)"

definition complexityKeywords :: "string list" where
  "complexityKeywords =
     [''if'', ''else'', ''while'', ''for'', ''switch'', ''case'', ''catch'', ''&&'', ''||'', ''?'']"

text \<open>
  The \<^verbatim>\<open>forEach\<close> of \<^verbatim>\<open>calculateComplexity\<close>: for each keyword the expression is built
  and the number of its matches in the line added.  An exception of the constructor ends
  the function.
\<close>

fun complexityLoop :: "string \<Rightarrow> string list \<Rightarrow> nat \<Rightarrow> error + nat" where
  "complexityLoop lin [] complexity0 = Inr complexity0"
| "complexityLoop lin (keyword # keywords) complexity0 =
     (case RegExp_gi ([backslash, CHR ''b''] @ keyword @ [backslash, CHR ''b'']) of
        Inl err \<Rightarrow> Inl err
      | Inr regex \<Rightarrow> complexityLoop lin keywords (complexity0 + length (matchAll regex lin 0)))"

definition calculateComplexity :: "string \<Rightarrow> error + nat" where
  "calculateComplexity lin = complexityLoop lin complexityKeywords 1"

subsection \<open>The patterns of \<^verbatim>\<open>parseCode\<close>\<close>

definition quote :: char where
  "quote = CHR 0x27"

definition dquote :: char where
  "dquote = CHR 0x22"

text \<open>\<^verbatim>\<open>/^\/\/\s*|\*\/|\*\s*/g\<close>\<close>

definition commentMarkRx :: rx where
  "commentMarkRx =
     Alt (rx_seq [Bol, Lit ''//'', Star Space])
       (Alt (Lit ''*/'') (rx_seq [Lit ''*'', Star Space]))"

text \<open>\<^verbatim>\<open>/^(async\s+)?(function\s+|const\s+|let\s+|var\s+)?(\w+)\s*[=:]?\s*(async\s+)?\(([^)]*)\)\s*[{:]?/\<close>\<close>

definition functionRx :: rx where
  "functionRx = rx_seq
     [Bol,
      Opt (Group 1 (rx_seq [Lit ''async'', Plus Space])),
      Opt (Group 2 (Alt (rx_seq [Lit ''function'', Plus Space])
                   (Alt (rx_seq [Lit ''const'', Plus Space])
                   (Alt (rx_seq [Lit ''let'', Plus Space])
                        (rx_seq [Lit ''var'', Plus Space]))))),
      Group 3 (Plus WordCh),
      Star Space, Opt (In (OneOf ''=:'')), Star Space,
      Opt (Group 4 (rx_seq [Lit ''async'', Plus Space])),
      Lit ''('', Group 5 (Star (NoneOf '')'')), Lit '')'',
      Star Space, Opt (In (OneOf ''{:''))]"

text \<open>\<^verbatim>\<open>/^(export\s+)?(abstract\s+)?class\s+(\w+)(\s+extends\s+\w+)?(\s+implements\s+[\w,\s]+)?/\<close>\<close>

definition classRx :: rx where
  "classRx = rx_seq
     [Bol,
      Opt (Group 1 (rx_seq [Lit ''export'', Plus Space])),
      Opt (Group 2 (rx_seq [Lit ''abstract'', Plus Space])),
      Lit ''class'', Plus Space,
      Group 3 (Plus WordCh),
      Opt (Group 4 (rx_seq [Plus Space, Lit ''extends'', Plus Space, Plus WordCh])),
      Opt (Group 5 (rx_seq [Plus Space, Lit ''implements'', Plus Space,
                            Plus (Union WordCh (Union (OneOf '','') Space))]))]"

text \<open>\<^verbatim>\<open>/\s+extends\s+/\<close>\<close>

definition extendsRx :: rx where
  "extendsRx = rx_seq [Plus Space, Lit ''extends'', Plus Space]"

text \<open>\<^verbatim>\<open>/^(const|let|var)\s+(\w+)(\s*[:=]\s*(.+))?/\<close>\<close>

definition variableRx :: rx where
  "variableRx = rx_seq
     [Bol,
      Group 1 (Alt (Lit ''const'') (Alt (Lit ''let'') (Lit ''var''))),
      Plus Space,
      Group 2 (Plus WordCh),
      Opt (Group 3 (rx_seq [Star Space, In (OneOf '':=''), Star Space, Group 4 (Plus Dot)]))]"

text \<open>\<^verbatim>\<open>/^import\s+(.+)\s+from\s+['"](.+)['"]/\<close>\<close>

definition importRx :: rx where
  "importRx = rx_seq
     [Bol, Lit ''import'', Plus Space,
      Group 1 (Plus Dot),
      Plus Space, Lit ''from'', Plus Space,
      In (OneOf [quote, dquote]), Group 2 (Plus Dot), In (OneOf [quote, dquote])]"

text \<open>\<^verbatim>\<open>/^export\s+(default\s+)?(.+)/\<close>\<close>

definition exportRx :: rx where
  "exportRx = rx_seq
     [Bol, Lit ''export'', Plus Space,
      Opt (Group 1 (rx_seq [Lit ''default'', Plus Space])),
      Group 2 (Plus Dot)]"

text \<open>\<^verbatim>\<open>/^(for|while|do)\s*\(/\<close>\<close>

definition loopRx :: rx where
  "loopRx = rx_seq
     [Bol, Group 1 (Alt (Lit ''for'') (Alt (Lit ''while'') (Lit ''do''))), Star Space, Lit ''('']"

text \<open>\<^verbatim>\<open>/^(if|else\s+if|else|switch|case)\s*[\(\{]?/\<close>\<close>

definition conditionalRx :: rx where
  "conditionalRx = rx_seq
     [Bol,
      Group 1 (Alt (Lit ''if'')
              (Alt (rx_seq [Lit ''else'', Plus Space, Lit ''if''])
              (Alt (Lit ''else'') (Alt (Lit ''switch'') (Lit ''case''))))),
      Star Space, Opt (In (OneOf ''({''))]"

subsection \<open>The scan\<close>

text \<open>
  The variables of \<^verbatim>\<open>parseCode\<close> that the \<^verbatim>\<open>forEach\<close> over the lines updates.
\<close>

record ScanState =
  elements :: "CodeElement list"
  currentScope :: string
  elementId :: nat

text \<open>\<^verbatim>\<open>elements.push(e)\<close> with \<^verbatim>\<open>elementId++\<close> in the element's id.\<close>

definition push :: "CodeElement \<Rightarrow> ScanState \<Rightarrow> ScanState" where
  "push e st = st\<lparr>elements := elements st @ [e], elementId := Suc (elementId st)\<rparr>"

text \<open>\<^verbatim>\<open>w.length > n ? w.substring(0, n) + '...' : w\<close>\<close>

definition ellipsis :: "nat \<Rightarrow> string \<Rightarrow> string" where
  "ellipsis n w = (if n < length w then take n w @ ''...'' else w)"

text \<open>
  The steps below take the line index \<open>i\<close> (from 0), the line \<open>lin\<close> and the trimmed line
  \<open>tr\<close>.  Columns are \<^verbatim>\<open>indexOf(..) + 1\<close>, so never negative.
\<close>

definition commentElement :: "nat \<Rightarrow> string \<Rightarrow> string \<Rightarrow> ScanState \<Rightarrow> CodeElement" where
  "commentElement i lin tr st =
     CodeElement (''comment-'' @ toString (elementId st)) Comment
       (take 50 (replaceAll commentMarkRx tr) @ (if 50 < length tr then ''...'' else []))
       (i + 1) (nat (indexOf lin tr + 1)) (i + 1) (length lin)
       (currentScope st) None None (Some ''Code comment'') None None"

text \<open>
  \<^verbatim>\<open>functionMatch[5].split(',').map(p => p.trim().split(/[:=]/)[0].trim())\<close>, or no
  parameter when the group is empty.
\<close>

definition paramNames :: "string \<Rightarrow> string list" where
  "paramNames ps =
     (if ps = [] then []
      else map (\<lambda>p. trim (takeWhile (\<lambda>c. c \<notin> set '':='') (trim p))) (js_split (CHR '','') ps))"

text \<open>
  The function step.  \<open>cc\<close> is the complexity function, \<^verbatim>\<open>calculateComplexity\<close> in
  \<^verbatim>\<open>parseCode\<close>; its exception leaves the whole scan.
\<close>

definition detectFunction ::
  "(string \<Rightarrow> error + nat) \<Rightarrow> nat \<Rightarrow> string \<Rightarrow> string \<Rightarrow> ScanState \<Rightarrow> error + ScanState" where
  "detectFunction cc i lin tr st =
     (case js_match functionRx tr of
        None \<Rightarrow> Inr st
      | Some m \<Rightarrow>
          (let functionName = group m 3;
               ps = paramNames (group m 5)
           in case cc tr of
                Inl err \<Rightarrow> Inl err
              | Inr c \<Rightarrow>
                  Inr ((push
                    (CodeElement (''function-'' @ toString (elementId st)) Function functionName
                       (i + 1) (nat (indexOf lin functionName + 1)) (i + 1) (length lin)
                       (currentScope st) (Some ps) (Some (m 1 \<noteq> None \<or> m 4 \<noteq> None))
                       (Some (''Function with '' @ toString (length ps) @ '' parameter''
                              @ (if length ps \<noteq> 1 then ''s'' else [])))
                       (Some c) None) st)
                    \<lparr>currentScope := functionName\<rparr>)))"

definition detectClass ::
  "(string \<Rightarrow> error + nat) \<Rightarrow> nat \<Rightarrow> string \<Rightarrow> string \<Rightarrow> ScanState \<Rightarrow> error + ScanState" where
  "detectClass cc i lin tr st =
     (case js_match classRx tr of
        None \<Rightarrow> Inr st
      | Some m \<Rightarrow>
          (let className = group m 3
           in case cc tr of
                Inl err \<Rightarrow> Inl err
              | Inr c \<Rightarrow>
                  Inr ((push
                    (CodeElement (''class-'' @ toString (elementId st)) Class className
                       (i + 1) (nat (indexOf lin className + 1)) (i + 1) (length lin)
                       (currentScope st) None None
                       (Some (''Class'' @ (case m 4 of
                                             None \<Rightarrow> []
                                           | Some ext \<Rightarrow>
                                               if replaceFirst extendsRx ext = [] then []
                                               else '' extending '' @ replaceFirst extendsRx ext)))
                       (Some c) (Some [])) st)
                    \<lparr>currentScope := className\<rparr>)))"

definition detectVariable :: "nat \<Rightarrow> string \<Rightarrow> string \<Rightarrow> ScanState \<Rightarrow> ScanState" where
  "detectVariable i lin tr st =
     (case js_match variableRx tr of
        None \<Rightarrow> st
      | Some m \<Rightarrow>
          (let variableName = group m 2
           in push
             (CodeElement (''variable-'' @ toString (elementId st)) Variable variableName
                (i + 1) (nat (indexOf lin variableName + 1)) (i + 1) (length lin)
                (currentScope st) None None
                (Some (group m 1 @ '' variable''
                       @ (case m 4 of
                            None \<Rightarrow> []
                          | Some initialValue \<Rightarrow>
                              '' initialized with '' @ take 20 initialValue
                              @ (if 20 < length initialValue then ''...'' else []))))
                (Some 1) None) st))"

definition detectImport :: "nat \<Rightarrow> string \<Rightarrow> string \<Rightarrow> ScanState \<Rightarrow> ScanState" where
  "detectImport i lin tr st =
     (case js_match importRx tr of
        None \<Rightarrow> st
      | Some m \<Rightarrow>
          push
            (CodeElement (''import-'' @ toString (elementId st)) Import (ellipsis 30 (group m 1))
               (i + 1) 1 (i + 1) (length lin)
               ''global'' None None
               (Some (''Import from '' @ group m 2))
               (Some 1) None) st)"

definition detectExport :: "nat \<Rightarrow> string \<Rightarrow> string \<Rightarrow> ScanState \<Rightarrow> ScanState" where
  "detectExport i lin tr st =
     (case js_match exportRx tr of
        None \<Rightarrow> st
      | Some m \<Rightarrow>
          push
            (CodeElement (''export-'' @ toString (elementId st)) Export (ellipsis 30 (group m 2))
               (i + 1) 1 (i + 1) (length lin)
               (currentScope st) None None
               (Some ((if m 1 \<noteq> None then ''Default '' else []) @ ''export''))
               (Some 1) None) st)"

definition detectLoop ::
  "(string \<Rightarrow> error + nat) \<Rightarrow> nat \<Rightarrow> string \<Rightarrow> string \<Rightarrow> ScanState \<Rightarrow> error + ScanState" where
  "detectLoop cc i lin tr st =
     (case js_match loopRx tr of
        None \<Rightarrow> Inr st
      | Some m \<Rightarrow>
          (case cc tr of
             Inl err \<Rightarrow> Inl err
           | Inr c \<Rightarrow>
               Inr (push
                 (CodeElement (''loop-'' @ toString (elementId st)) Loop (group m 1 @ '' loop'')
                    (i + 1) 1 (i + 1) (length lin)
                    (currentScope st) None None
                    (Some (capitalize (group m 1) @ '' loop statement''))
                    (Some c) None) st)))"

definition detectConditional ::
  "(string \<Rightarrow> error + nat) \<Rightarrow> nat \<Rightarrow> string \<Rightarrow> string \<Rightarrow> ScanState \<Rightarrow> error + ScanState" where
  "detectConditional cc i lin tr st =
     (case js_match conditionalRx tr of
        None \<Rightarrow> Inr st
      | Some m \<Rightarrow>
          (case cc tr of
             Inl err \<Rightarrow> Inl err
           | Inr c \<Rightarrow>
               Inr (push
                 (CodeElement (''conditional-'' @ toString (elementId st)) Conditional
                    (group m 1 @ '' statement'')
                    (i + 1) 1 (i + 1) (length lin)
                    (currentScope st) None None
                    (Some (capitalize (group m 1) @ '' conditional''))
                    (Some c) None) st)))"

text \<open>Sequencing of steps that may throw.\<close>

definition andThen :: "error + 'a \<Rightarrow> ('a \<Rightarrow> error + 'b) \<Rightarrow> error + 'b" where
  "andThen m f = (case m of Inl err \<Rightarrow> Inl err | Inr v \<Rightarrow> f v)"

text \<open>
  The body of the \<^verbatim>\<open>forEach\<close>: a blank line or a comment line ends the iteration after
  the comment element (if any); every other line runs the seven detections in order.
\<close>

definition scanLine ::
  "(string \<Rightarrow> error + nat) \<Rightarrow> nat \<Rightarrow> string \<Rightarrow> ScanState \<Rightarrow> error + ScanState" where
  "scanLine cc i lin st =
     (let tr = trim lin in
      if tr = [] \<or> prefix ''//'' tr \<or> prefix ''/*'' tr then
        (if prefix ''//'' tr \<or> prefix ''/*'' tr
         then Inr (push (commentElement i lin tr st) st)
         else Inr st)
      else
        andThen (detectFunction cc i lin tr st) (\<lambda>st1.
        andThen (detectClass cc i lin tr st1) (\<lambda>st2.
        andThen (detectLoop cc i lin tr
                   (detectExport i lin tr (detectImport i lin tr (detectVariable i lin tr st2))))
                (\<lambda>st3.
        detectConditional cc i lin tr st3))))"

fun scanLines ::
  "(string \<Rightarrow> error + nat) \<Rightarrow> nat \<Rightarrow> string list \<Rightarrow> ScanState \<Rightarrow> error + ScanState" where
  "scanLines cc i [] st = Inr st"
| "scanLines cc i (lin # lins) st = andThen (scanLine cc i lin st) (scanLines cc (Suc i) lins)"

text \<open>
  \<^verbatim>\<open>parseCode\<close> with the complexity function as an argument, and \<^verbatim>\<open>parseCode\<close> itself.
  The result is sorted by line with \<^verbatim>\<open>(a, b) => a.line - b.line\<close>.
\<close>

definition parseCodeWith :: "(string \<Rightarrow> error + nat) \<Rightarrow> string \<Rightarrow> error + CodeElement list" where
  "parseCodeWith cc sourceCode =
     andThen
       (scanLines cc 0 (js_split (CHR 0x0A) sourceCode)
          \<lparr>elements = [], currentScope = ''global'', elementId = 0\<rparr>)
       (\<lambda>st. Inr (js_sort (\<lambda>a b. int (line a) - int (line b)) (elements st)))"

definition parseCode :: "string \<Rightarrow> error + CodeElement list" where
  "parseCode sourceCode = parseCodeWith calculateComplexity sourceCode"

section \<open>The navigation index\<close>

text \<open>The string of an element kind, as the \<^verbatim>\<open>type\<close> field holds it.\<close>

fun kindName :: "kind \<Rightarrow> string" where
  "kindName Function = ''function''"
| "kindName Class = ''class''"
| "kindName Variable = ''variable''"
| "kindName Comment = ''comment''"
| "kindName Import = ''import''"
| "kindName Export = ''export''"
| "kindName Loop = ''loop''"
| "kindName Conditional = ''conditional''"

datatype sortKey = ByName | ByLine | ByComplexity | ByType

datatype sortOrder = Asc | Desc

record NavigationSettings =
  showLineNumbers_nav :: bool
  showScope :: bool
  showComplexity :: bool
  groupByType :: bool
  sortBy :: sortKey
  sortOrder :: sortOrder
  filterTypes :: "string list"
  maxDepth :: nat
  enableAudioFeedback :: bool
  enableHapticFeedback :: bool
  autoFocus :: bool
  persistState :: bool

subsection \<open>Arrays in a store\<close>

text \<open>
  \<^verbatim>\<open>filterAndSortElements\<close> receives the array of the component state and works on
  \<^verbatim>\<open>let filtered = elements\<close>, a second reference to it.  Arrays therefore live in a
  store: an address names an array, \<^verbatim>\<open>filter\<close> allocates a new array, \<^verbatim>\<open>sort\<close> sorts
  the array at its address in place.  The elements themselves are never written to and
  are values.
\<close>

record Store =
  arrays :: "nat \<Rightarrow> CodeElement list option"
  fresh :: nat

definition readArray :: "Store \<Rightarrow> nat \<Rightarrow> CodeElement list" where
  "readArray h a = (case arrays h a of None \<Rightarrow> [] | Some xs \<Rightarrow> xs)"

definition newArray :: "CodeElement list \<Rightarrow> Store \<Rightarrow> nat \<times> Store" where
  "newArray xs h = (fresh h, h\<lparr>arrays := (arrays h)(fresh h \<mapsto> xs), fresh := Suc (fresh h)\<rparr>)"

definition arrayFilter :: "(CodeElement \<Rightarrow> bool) \<Rightarrow> nat \<Rightarrow> Store \<Rightarrow> nat \<times> Store" where
  "arrayFilter p a h = newArray (filter p (readArray h a)) h"

definition arraySort :: "(CodeElement \<Rightarrow> CodeElement \<Rightarrow> int) \<Rightarrow> nat \<Rightarrow> Store \<Rightarrow> Store" where
  "arraySort cmp a h = h\<lparr>arrays := (arrays h)(a \<mapsto> js_sort cmp (readArray h a))\<rparr>"

subsection \<open>\<^verbatim>\<open>filterAndSortElements\<close>\<close>

text \<open>
  The comparison of the sort.  \<^verbatim>\<open>localeCompare\<close> is the host's collation and is an
  argument \<open>lc\<close>; a missing complexity counts as 0.
\<close>

definition compareElements ::
  "(string \<Rightarrow> string \<Rightarrow> int) \<Rightarrow> NavigationSettings \<Rightarrow> CodeElement \<Rightarrow> CodeElement \<Rightarrow> int" where
  "compareElements lc settings a b =
     (let comparison =
        (case sortBy settings of
           ByName \<Rightarrow> lc (name a) (name b)
         | ByLine \<Rightarrow> int (line a) - int (line b)
         | ByComplexity \<Rightarrow>
             int (case complexity a of None \<Rightarrow> 0 | Some c \<Rightarrow> c)
             - int (case complexity b of None \<Rightarrow> 0 | Some c \<Rightarrow> c)
         | ByType \<Rightarrow> lc (kindName (type a)) (kindName (type b)))
      in if sortOrder settings = Desc then - comparison else comparison)"

text \<open>The search filter: the query is in the name or, if there is one, the description.\<close>

definition matchesQuery :: "string \<Rightarrow> CodeElement \<Rightarrow> bool" where
  "matchesQuery searchQuery e =
     (js_includes (toLowerCase (name e)) (toLowerCase searchQuery)
      \<or> (case description e of
            None \<Rightarrow> False
          | Some d \<Rightarrow> js_includes (toLowerCase d) (toLowerCase searchQuery)))"

text \<open>
  Grouping: \<^verbatim>\<open>grouped\<close> has one key per kind, in the order the kinds first occur, each
  with the elements of that kind in order.
\<close>

fun addToGroup :: "CodeElement \<Rightarrow> (kind \<times> CodeElement list) list \<Rightarrow> (kind \<times> CodeElement list) list" where
  "addToGroup e [] = [(type e, [e])]"
| "addToGroup e (g # gs) =
     (if fst g = type e then (fst g, snd g @ [e]) # gs else g # addToGroup e gs)"

definition groupElement :: "kind \<times> CodeElement list \<Rightarrow> CodeElement" where
  "groupElement g =
     CodeElement (''group-'' @ kindName (fst g)) (fst g)
       (capitalize (kindName (fst g)) @ ''s ('' @ toString (length (snd g)) @ '')'')
       0 0 0 0 ''group'' None None
       (Some (''Group of '' @ toString (length (snd g)) @ '' '' @ kindName (fst g) @ ''s''))
       None (Some (snd g))"

text \<open>
  The function takes the address of \<^verbatim>\<open>elements\<close> and returns the address of its result
  with the store it leaves.
\<close>

definition filterAndSortElements ::
  "(string \<Rightarrow> string \<Rightarrow> int) \<Rightarrow> NavigationSettings \<Rightarrow> string \<Rightarrow> nat \<Rightarrow> Store \<Rightarrow> nat \<times> Store" where
  "filterAndSortElements lc settings searchQuery elems h =
     (let (filtered1, h1) =
            (if filterTypes settings \<noteq> []
             then arrayFilter (\<lambda>e. kindName (type e) \<in> set (filterTypes settings)) elems h
             else (elems, h));
          (filtered2, h2) =
            (if searchQuery \<noteq> []
             then arrayFilter (matchesQuery searchQuery) filtered1 h1
             else (filtered1, h1));
          h3 = arraySort (compareElements lc settings) filtered2 h2
      in if groupByType settings
         then newArray (map groupElement (foldl (\<lambda>gs e. addToGroup e gs) [] (readArray h3 filtered2))) h3
         else (filtered2, h3))"

subsection \<open>\<^verbatim>\<open>performSearch\<close>\<close>

record SearchResult =
  resElement :: CodeElement
  matches :: nat
  score :: nat
  resContext :: string

text \<open>\<^verbatim>\<open>context = context || w\<close>: the first non-empty context stays.\<close>

definition orElse :: "string \<Rightarrow> string \<Rightarrow> string" where
  "orElse c w = (if c = [] then w else c)"

definition typeBoosts :: "kind \<Rightarrow> nat" where
  "typeBoosts k =
     (case k of Function \<Rightarrow> 20 | Class \<Rightarrow> 15 | Variable \<Rightarrow> 10 | Import \<Rightarrow> 5 | Export \<Rightarrow> 5 | _ \<Rightarrow> 0)"

text \<open>The four matching steps of the loop body, each on the running result.\<close>

definition nameMatch :: "string \<Rightarrow> SearchResult \<Rightarrow> SearchResult" where
  "nameMatch lowerQuery r =
     (if js_includes (toLowerCase (name (resElement r))) lowerQuery
      then r\<lparr>score := score r + (if toLowerCase (name (resElement r)) = lowerQuery then 100 else 50),
             matches := matches r + 1,
             resContext := name (resElement r)\<rparr>
      else r)"

definition descriptionMatch :: "string \<Rightarrow> SearchResult \<Rightarrow> SearchResult" where
  "descriptionMatch lowerQuery r =
     (case description (resElement r) of
        None \<Rightarrow> r
      | Some d \<Rightarrow>
          if d \<noteq> [] \<and> js_includes (toLowerCase d) lowerQuery
          then r\<lparr>score := score r + 25, matches := matches r + 1,
                 resContext := orElse (resContext r) d\<rparr>
          else r)"

definition scopeMatch :: "string \<Rightarrow> SearchResult \<Rightarrow> SearchResult" where
  "scopeMatch lowerQuery r =
     (if js_includes (toLowerCase (scope (resElement r))) lowerQuery
      then r\<lparr>score := score r + 15, matches := matches r + 1,
             resContext := orElse (resContext r) (''In '' @ scope (resElement r))\<rparr>
      else r)"

fun paramMatch :: "string \<Rightarrow> string list \<Rightarrow> SearchResult \<Rightarrow> SearchResult" where
  "paramMatch lowerQuery [] r = r"
| "paramMatch lowerQuery (p # ps) r =
     paramMatch lowerQuery ps
       (if js_includes (toLowerCase p) lowerQuery
        then r\<lparr>score := score r + 10, matches := matches r + 1,
               resContext := orElse (resContext r) (''Parameter: '' @ p)\<rparr>
        else r)"

definition scoreElement :: "string \<Rightarrow> CodeElement \<Rightarrow> SearchResult" where
  "scoreElement lowerQuery e =
     (let r0 = \<lparr>resElement = e, matches = 0, score = 0, resContext = []\<rparr>;
          r1 = nameMatch lowerQuery r0;
          r2 = descriptionMatch lowerQuery r1;
          r3 = scopeMatch lowerQuery r2;
          r4 = (case params e of None \<Rightarrow> r3 | Some ps \<Rightarrow> paramMatch lowerQuery ps r3);
          r5 = r4\<lparr>score := score r4 + typeBoosts (type e)\<rparr>
      in r5\<lparr>resContext := orElse (resContext r5) (name e)\<rparr>)"

text \<open>The \<^verbatim>\<open>forEach\<close> over \<^verbatim>\<open>codeElements\<close>: a result is pushed when its score is positive.\<close>

fun searchLoop :: "string \<Rightarrow> CodeElement list \<Rightarrow> SearchResult list" where
  "searchLoop lowerQuery [] = []"
| "searchLoop lowerQuery (e # es) =
     (if 0 < score (scoreElement lowerQuery e)
      then scoreElement lowerQuery e # searchLoop lowerQuery es
      else searchLoop lowerQuery es)"

definition performSearch :: "CodeElement list \<Rightarrow> string \<Rightarrow> SearchResult list" where
  "performSearch codeElements query =
     (if trim query = [] then []
      else take 20 (js_sort (\<lambda>a b. int (score b) - int (score a))
                      (searchLoop (toLowerCase query) codeElements)))"

text \<open>
  The scoring formula in the words of the specification: 100 for a name that equals the
  query or 50 for a name that contains it, 25 for the description, 15 for the scope, 10
  for each parameter that contains it, and the boost of the kind.  Matching ignores case.
\<close>

definition kindBoost :: "kind \<Rightarrow> nat" where
  "kindBoost k =
     (if k = Function then 20 else if k = Class then 15 else if k = Variable then 10
      else if k = Import \<or> k = Export then 5 else 0)"

definition contains :: "string \<Rightarrow> string \<Rightarrow> bool" where
  "contains field query = js_includes (toLowerCase field) (toLowerCase query)"

definition additiveScore :: "string \<Rightarrow> CodeElement \<Rightarrow> nat" where
  "additiveScore query e =
     (if toLowerCase (name e) = toLowerCase query then 100
      else if contains (name e) query then 50 else 0)
     + (case description e of None \<Rightarrow> 0 | Some d \<Rightarrow> if contains d query then 25 else 0)
     + (if contains (scope e) query then 15 else 0)
     + 10 * length (filter (\<lambda>p. contains p query) (case params e of None \<Rightarrow> [] | Some ps \<Rightarrow> ps))
     + kindBoost (type e)"

datatype action = Navigate | Search | Jump

record NavigationHistory =
  element :: CodeElement
  timestamp :: nat
  action :: action

datatype direction = Back | Forward

text \<open>The part of the component state that the history functions read and write.\<close>

record HistoryState =
  navigationHistory :: "NavigationHistory list"
  currentHistoryIndex :: int
  selectedElement :: "CodeElement option"

text \<open>
  \<^verbatim>\<open>xs[i]\<close> for a JavaScript number \<open>i\<close>: \<^verbatim>\<open>undefined\<close> (here \<open>None\<close>) outside the
  array, never an exception.
\<close>

definition js_index :: "'a list \<Rightarrow> int \<Rightarrow> 'a option" where
  "js_index xs i = (if 0 \<le> i \<and> i < int (length xs) then Some (xs ! nat i) else None)"

text \<open>\<^verbatim>\<open>xs.slice(0, k)\<close>: a negative \<open>k\<close> counts from the end of the array.\<close>

definition js_slice0 :: "'a list \<Rightarrow> int \<Rightarrow> 'a list" where
  "js_slice0 xs k = (if k < 0 then take (nat (int (length xs) + k)) xs else take (nat k) xs)"

subsection \<open>History\<close>

text \<open>
  The component is a React function component: every render creates the functions below
  anew, and each of them sees the values \<^verbatim>\<open>navigationHistory\<close> and
  \<^verbatim>\<open>currentHistoryIndex\<close> of the render that created it.  A function called from the
  \<^verbatim>\<open>onClick\<close> of a button is the one of the latest render; the one called from the
  \<^verbatim>\<open>keydown\<close> listener is the one of the render in which the listener was last installed,
  which happens only when \<^verbatim>\<open>navigationMode\<close>, \<^verbatim>\<open>filteredElements\<close> or
  \<^verbatim>\<open>selectedElement\<close> changes.  So the functions take two states: \<open>render\<close>, the values
  their closure reads, and the current state \<open>s\<close>, which the setters update.
\<close>

text \<open>
  \<^verbatim>\<open>navigateHistory\<close>: the new index is computed from the closure's index and history,
  clamped with \<^verbatim>\<open>Math.max\<close> / \<^verbatim>\<open>Math.min\<close>; the state changes only when that index differs
  from the closure's and the closure's history has an entry there.
\<close>

definition navigateHistory :: "direction \<Rightarrow> HistoryState \<Rightarrow> HistoryState \<Rightarrow> HistoryState" where
  "navigateHistory d render s =
     (let newIndex = (case d of
                        Back \<Rightarrow> max 0 (currentHistoryIndex render - 1)
                      | Forward \<Rightarrow> min (int (length (navigationHistory render)) - 1)
                                       (currentHistoryIndex render + 1))
      in case js_index (navigationHistory render) newIndex of
           None \<Rightarrow> s
         | Some entry \<Rightarrow>
             if newIndex \<noteq> currentHistoryIndex render
             then s\<lparr>currentHistoryIndex := newIndex, selectedElement := Some (element entry)\<rparr>
             else s)"

text \<open>
  The history part of \<^verbatim>\<open>navigateToElement\<close>: the element is selected;
  \<^verbatim>\<open>setNavigationHistory(prev => [...prev.slice(0, currentHistoryIndex + 1), historyEntry])\<close>
  cuts the current history after the closure's index and appends the new entry;
  \<^verbatim>\<open>setCurrentHistoryIndex(prev => prev + 1)\<close> advances the current index by one.  The time
  stamp (\<^verbatim>\<open>Date.now()\<close>) is an argument.
\<close>

definition navigateToElement ::
  "CodeElement \<Rightarrow> action \<Rightarrow> nat \<Rightarrow> HistoryState \<Rightarrow> HistoryState \<Rightarrow> HistoryState" where
  "navigateToElement e a now render s =
     s\<lparr>selectedElement := Some e,
       navigationHistory :=
         js_slice0 (navigationHistory s) (currentHistoryIndex render + 1)
           @ [\<lparr>element = e, timestamp = now, action = a\<rparr>],
       currentHistoryIndex := currentHistoryIndex s + 1\<rparr>"

text \<open>The initial state of the component: \<^verbatim>\<open>useState([])\<close>, \<^verbatim>\<open>useState(-1)\<close>, \<^verbatim>\<open>useState(null)\<close>.\<close>

definition initialHistory :: HistoryState where
  "initialHistory = \<lparr>navigationHistory = [], currentHistoryIndex = -1, selectedElement = None\<rparr>"

text \<open>
  A well-formed history state: the cursor is \<open>-1\<close> on the empty history and an index of
  the history otherwise.
\<close>

definition history_ok :: "HistoryState \<Rightarrow> bool" where
  "history_ok s =
     (if navigationHistory s = [] then currentHistoryIndex s = -1
      else 0 \<le> currentHistoryIndex s \<and> currentHistoryIndex s < int (length (navigationHistory s)))"

text \<open>Example data for the closed instances below.\<close>

definition elemA :: CodeElement where
  "elemA = CodeElement ''variable-0'' Variable ''a'' 1 7 1 11 ''global'' None None
             (Some ''const variable initialized with 1'') (Some 1) None"

definition elemB :: CodeElement where
  "elemB = CodeElement ''variable-1'' Variable ''b'' 2 7 2 11 ''global'' None None
             (Some ''const variable initialized with 2'') (Some 1) None"

text \<open>
  Two clicks in the element list and a click on the back button: every handler is the
  one of the latest render.
\<close>

definition clicked1 :: HistoryState where
  "clicked1 = navigateToElement elemA Navigate 10 initialHistory initialHistory"

definition clicked2 :: HistoryState where
  "clicked2 = navigateToElement elemB Navigate 20 clicked1 clicked1"

definition history2 :: HistoryState where
  "history2 = navigateHistory Back clicked2 clicked2"

text \<open>
  A click on an element of the list, then the Enter key three times, in keyboard mode.
  The click selects the element, so the render after it installs a new \<^verbatim>\<open>keydown\<close>
  listener, which sees the state \<open>clicked1\<close>.  Enter calls
  \<^verbatim>\<open>navigateToElement(selectedElement, 'navigate')\<close>: the selected element stays the same
  object, \<^verbatim>\<open>filteredElements\<close> and \<^verbatim>\<open>navigationMode\<close> do not change, and the listener of
  the render \<open>clicked1\<close> stays installed for the next key.
\<close>

definition entered1 :: HistoryState where
  "entered1 = navigateToElement elemA Navigate 20 clicked1 clicked1"

definition entered2 :: HistoryState where
  "entered2 = navigateToElement elemA Navigate 30 clicked1 entered1"

definition entered3 :: HistoryState where
  "entered3 = navigateToElement elemA Navigate 40 clicked1 entered2"

section \<open>The audio cue mapper\<close>

text \<open>
  Numbers that are not integers (durations, envelope times, the playback speed) are
  modelled as real numbers; JavaScript rounds the results of arithmetic to doubles.
\<close>

datatype waveform = Sine | Square | Triangle | Sawtooth

record Envelope =
  attack :: real
  decay :: real
  sustain :: real
  release :: real

record ToneDescriptor =
  frequency :: real
  duration :: real
  waveform :: waveform
  envelope :: "Envelope option"

definition audioMappings :: "(string \<times> ToneDescriptor) list" where
  "audioMappings =
     [(''function'', \<lparr>frequency = 440, duration = 0.5, waveform = Sine,
         envelope = Some \<lparr>attack = 0.1, decay = 0.2, sustain = 0.7, release = 0.3\<rparr>\<rparr>),
      (''variable'', \<lparr>frequency = 330, duration = 0.3, waveform = Triangle,
         envelope = Some \<lparr>attack = 0.05, decay = 0.1, sustain = 0.8, release = 0.2\<rparr>\<rparr>),
      (''class'', \<lparr>frequency = 550, duration = 0.6, waveform = Square,
         envelope = Some \<lparr>attack = 0.15, decay = 0.25, sustain = 0.6, release = 0.4\<rparr>\<rparr>),
      (''loop'', \<lparr>frequency = 220, duration = 0.4, waveform = Sawtooth,
         envelope = Some \<lparr>attack = 0.08, decay = 0.15, sustain = 0.75, release = 0.25\<rparr>\<rparr>),
      (''conditional'', \<lparr>frequency = 660, duration = 0.35, waveform = Sine,
         envelope = Some \<lparr>attack = 0.06, decay = 0.12, sustain = 0.82, release = 0.18\<rparr>\<rparr>),
      (''comment'', \<lparr>frequency = 110, duration = 0.2, waveform = Triangle,
         envelope = Some \<lparr>attack = 0.03, decay = 0.08, sustain = 0.9, release = 0.15\<rparr>\<rparr>),
      (''string'', \<lparr>frequency = 880, duration = 0.25, waveform = Sine,
         envelope = Some \<lparr>attack = 0.04, decay = 0.09, sustain = 0.85, release = 0.12\<rparr>\<rparr>),
      (''number'', \<lparr>frequency = 440, duration = 0.15, waveform = Square,
         envelope = Some \<lparr>attack = 0.02, decay = 0.05, sustain = 0.95, release = 0.08\<rparr>\<rparr>),
      (''operator'', \<lparr>frequency = 1100, duration = 0.1, waveform = Triangle,
         envelope = Some \<lparr>attack = 0.01, decay = 0.03, sustain = 0.98, release = 0.05\<rparr>\<rparr>),
      (''keyword'', \<lparr>frequency = 770, duration = 0.3, waveform = Sawtooth,
         envelope = Some \<lparr>attack = 0.07, decay = 0.13, sustain = 0.78, release = 0.22\<rparr>\<rparr>)]"

text \<open>
  \<^verbatim>\<open>audioMappings\<close> is an object literal, so a property read that finds no own property
  goes on to \<^verbatim>\<open>Object.prototype\<close>, whose members have these names.
\<close>

definition objectPrototypeNames :: "string list" where
  "objectPrototypeNames =
     [''constructor'', ''hasOwnProperty'', ''isPrototypeOf'', ''propertyIsEnumerable'',
      ''toLocaleString'', ''toString'', ''valueOf'', ''__proto__'',
      ''__defineGetter__'', ''__defineSetter__'', ''__lookupGetter__'', ''__lookupSetter__'']"

text \<open>
  \<^verbatim>\<open>audioMappings[elementType] || audioMappings.keyword\<close>: the own entry; else, for a
  name of \<^verbatim>\<open>Object.prototype\<close>, the inherited member (truthy, and no descriptor); else
  the \<^verbatim>\<open>keyword\<close> entry.
\<close>

datatype cue = Descriptor ToneDescriptor | Inherited | Undefined

definition cueFor :: "(string \<times> ToneDescriptor) list \<Rightarrow> string \<Rightarrow> cue" where
  "cueFor mappings elementType =
     (case map_of mappings elementType of
        Some d \<Rightarrow> Descriptor d
      | None \<Rightarrow>
          if elementType \<in> set objectPrototypeNames then Inherited
          else (case map_of mappings ''keyword'' of None \<Rightarrow> Undefined | Some d \<Rightarrow> Descriptor d))"

text \<open>
  The synthesizer behind \<^verbatim>\<open>synthRef.current\<close>, as far as the function writes to it: the
  oscillator type, the envelope, the notes triggered (frequency, duration) and the
  panners connected.
\<close>

record Synth =
  oscillatorType :: waveform
  synthEnvelope :: Envelope
  triggered :: "(real \<times> real) list"
  panners :: "real list"

record AudioState =
  table :: "(string \<times> ToneDescriptor) list"
  synthRef :: "Synth option"

text \<open>
  \<^verbatim>\<open>playAudioForElement\<close>.  \<open>audioEnabled\<close>, \<open>playbackSpeed\<close> and \<open>spatialAudio\<close> are
  the values the callback closes over; \<open>started\<close> tells whether \<^verbatim>\<open>await Tone.start()\<close>
  resolves and \<open>random\<close> is the value of \<^verbatim>\<open>Math.random()\<close>.  An exception inside
  \<^verbatim>\<open>try\<close> is caught and logged, which leaves the state as it is.  For an inherited
  member of \<^verbatim>\<open>Object.prototype\<close> the calls into Tone.js receive \<^verbatim>\<open>undefined\<close>; what
  the library does then is outside this model, which leaves the state as it is.
\<close>

definition playAudioForElement ::
  "bool \<Rightarrow> real \<Rightarrow> bool \<Rightarrow> bool \<Rightarrow> real \<Rightarrow> string \<Rightarrow> real option \<Rightarrow> AudioState \<Rightarrow> AudioState" where
  "playAudioForElement audioEnabled playbackSpeed spatialAudio started random elementType dur s =
     (case synthRef s of
        None \<Rightarrow> s
      | Some synth \<Rightarrow>
          if \<not> audioEnabled \<or> \<not> started then s
          else
            (case cueFor (table s) elementType of
               Undefined \<Rightarrow> s
             | Inherited \<Rightarrow> s
             | Descriptor mapping \<Rightarrow>
                 (let actualDuration =
                        (case dur of
                           None \<Rightarrow> duration mapping
                         | Some d \<Rightarrow> if d = 0 then duration mapping else d) * playbackSpeed;
                      synth1 = synth\<lparr>oscillatorType := waveform mapping\<rparr>;
                      synth2 = (case envelope mapping of
                                  None \<Rightarrow> synth1
                                | Some env \<Rightarrow> synth1\<lparr>synthEnvelope := env\<rparr>);
                      synth3 = synth2\<lparr>triggered := triggered synth2 @ [(frequency mapping, actualDuration)]\<rparr>;
                      synth4 = (if spatialAudio
                                then synth3\<lparr>panners := panners synth3 @ [(random - 0.5) * 0.8]\<rparr>
                                else synth3)
                  in s\<lparr>synthRef := Some synth4\<rparr>)))"

section \<open>The Braille transliteration engine\<close>

text \<open>
  The input text is any JavaScript string, a list of UTF-16 code units, and so is the
  Braille output (the glyphs lie in the block from U+2800).  Of a table entry only the
  \<^verbatim>\<open>unicode\<close> field is kept: the conversion reads no other.  The function
  \<open>hostLowerCase\<close> that the definitions pass on is the one of \<open>toLowerCaseUnits\<close>.
\<close>

datatype grade = Grade1 | Grade2

record BrailleSettings =
  grade :: grade
  cellsPerLine :: nat
  lineSpacing :: real
  fontSize :: nat
  showDotNumbers :: bool
  showAsciiEquivalent :: bool
  contractionsEnabled :: bool
  mathNotation :: bool
  computerBraille :: bool
  unicode8Dot :: bool
  tactileFeedback :: bool
  audioFeedback :: bool
  autoRefresh :: bool
  preserveFormatting :: bool
  showLineNumbers :: bool
  compactMode :: bool

record BrailleContext =
  ctxLine :: nat
  ctxColumn :: nat
  indentLevel :: nat
  inString :: bool
  inComment :: bool
  inFunction :: bool
  inClass :: bool
  parenthesesLevel :: int
  bracketsLevel :: int
  bracesLevel :: int

text \<open>The match of a contraction or operator: \<^verbatim>\<open>{ braille, length }\<close>.\<close>

record BrailleMatch =
  braille :: "nat list"
  len :: nat

definition brailleMappings :: "(char \<times> nat list) list" where
  "brailleMappings =
     [(CHR ''a'', [0x2801]), (CHR ''b'', [0x2803]), (CHR ''c'', [0x2809]),
      (CHR ''d'', [0x2819]), (CHR ''e'', [0x2811]), (CHR ''f'', [0x280B]),
      (CHR ''g'', [0x281B]), (CHR ''h'', [0x2813]), (CHR ''i'', [0x280A]),
      (CHR ''j'', [0x281A]), (CHR ''k'', [0x2805]), (CHR ''l'', [0x2807]),
      (CHR ''m'', [0x280D]), (CHR ''n'', [0x281D]), (CHR ''o'', [0x2815]),
      (CHR ''p'', [0x280F]), (CHR ''q'', [0x281F]), (CHR ''r'', [0x2817]),
      (CHR ''s'', [0x280E]), (CHR ''t'', [0x281E]), (CHR ''u'', [0x2825]),
      (CHR ''v'', [0x2827]), (CHR ''w'', [0x283A]), (CHR ''x'', [0x282D]),
      (CHR ''y'', [0x283D]), (CHR ''z'', [0x2835]), (CHR ''1'', [0x2801]),
      (CHR ''2'', [0x2803]), (CHR ''3'', [0x2809]), (CHR ''4'', [0x2819]),
      (CHR ''5'', [0x2811]), (CHR ''6'', [0x280B]), (CHR ''7'', [0x281B]),
      (CHR ''8'', [0x2813]), (CHR ''9'', [0x280A]), (CHR ''0'', [0x281A]),
      (CHR ''('', [0x2837]), (CHR '')'', [0x283E]), (CHR ''['', [0x2828, 0x2837]),
      (CHR '']'', [0x2828, 0x283E]), (CHR ''{'', [0x2838, 0x2837]), (CHR ''}'', [0x2838, 0x283E]),
      (CHR ''='', [0x2828, 0x2805]), (CHR ''+'', [0x282C]), (CHR ''-'', [0x2824]),
      (CHR ''*'', [0x2814]), (CHR ''/'', [0x280C]), (CHR 0x5C, [0x2833]),
      (CHR ''<'', [0x2808, 0x2823]), (CHR ''>'', [0x2808, 0x281C]), (CHR ''&'', [0x282F]),
      (CHR ''|'', [0x2833]), (CHR ''^'', [0x2818]), (CHR ''~'', [0x2820, 0x2824]),
      (CHR ''!'', [0x2816]), (CHR ''@'', [0x2808, 0x2801]), (CHR ''#'', [0x283C]),
      (CHR ''$'', [0x282B]), (CHR ''%'', [0x2829]), (CHR 0x22, [0x2826]),
      (CHR 0x27, [0x2804]), (CHR '':'', [0x2812]), (CHR '';'', [0x2806]),
      (CHR '','', [0x2802]), (CHR ''.'', [0x2832]), (CHR ''?'', [0x2826]),
      (CHR '' '', [0x0020]), (CHR 0x09, [0x2800, 0x2800]), (CHR 0x0A, [0x000A])]"

text \<open>
  \<^verbatim>\<open>brailleMappings[key]\<close> for a string \<open>key\<close>: the entry whose one-character name the key
  is.  (The members that the object literal inherits have names of seven characters and
  more; the key is one character of the text or the lower case of one.)
\<close>

definition glyphOf :: "nat list \<Rightarrow> nat list option" where
  "glyphOf key = map_of (map (\<lambda>entry. (units [fst entry], snd entry)) brailleMappings) key"

definition programmingContractions :: "(string \<times> nat list) list" where
  "programmingContractions =
     [(''function'', [0x280B, 0x281D]), (''return'', [0x2817, 0x281E]),
      (''class'', [0x2809, 0x2807]), (''public'', [0x280F, 0x2803]),
      (''private'', [0x280F, 0x2827]), (''protected'', [0x280F, 0x281E]),
      (''static'', [0x280E, 0x281E]), (''const'', [0x2809, 0x280E]),
      (''let'', [0x2807, 0x281E]), (''var'', [0x2827, 0x2817]),
      (''if'', [0x280A, 0x280B]), (''else'', [0x2811, 0x2807]),
      (''for'', [0x280B, 0x2817]), (''while'', [0x283A, 0x2813]),
      (''do'', [0x2819, 0x2815]), (''switch'', [0x280E, 0x283A]),
      (''case'', [0x2809, 0x2801]), (''break'', [0x2803, 0x2805]),
      (''continue'', [0x2809, 0x281E]), (''try'', [0x281E, 0x2817]),
      (''catch'', [0x2809, 0x2813]), (''finally'', [0x280B, 0x2807]),
      (''throw'', [0x281E, 0x2813]), (''new'', [0x281D, 0x283A]),
      (''delete'', [0x2819, 0x2807]), (''this'', [0x281E, 0x2813]),
      (''super'', [0x280E, 0x280F]), (''extends'', [0x2811, 0x282D]),
      (''implements'', [0x280A, 0x280D]), (''interface'', [0x280A, 0x281E]),
      (''enum'', [0x2811, 0x281D]), (''import'', [0x280A, 0x280D]),
      (''export'', [0x2811, 0x282D]), (''from'', [0x280B, 0x280D]),
      (''as'', [0x2801, 0x280E]), (''default'', [0x2819, 0x280B]),
      (''async'', [0x2801, 0x280E]), (''await'', [0x2801, 0x283A]),
      (''promise'', [0x280F, 0x280D]), (''undefined'', [0x2825, 0x281D]),
      (''null'', [0x281D, 0x2807]), (''true'', [0x281E, 0x2817]),
      (''false'', [0x280B, 0x2807]), (''boolean'', [0x2803, 0x2807]),
      (''string'', [0x280E, 0x281E]), (''number'', [0x281D, 0x280D]),
      (''object'', [0x2815, 0x2803]), (''array'', [0x2801, 0x2817]),
      (''length'', [0x2807, 0x281B]), (''push'', [0x280F, 0x280E]),
      (''pop'', [0x280F, 0x2815]), (''shift'', [0x280E, 0x2813]),
      (''unshift'', [0x2825, 0x280E]), (''slice'', [0x280E, 0x2807]),
      (''splice'', [0x280E, 0x280F]), (''indexOf'', [0x280A, 0x2819]),
      (''forEach'', [0x280B, 0x2811]), (''map'', [0x280D, 0x2801]),
      (''filter'', [0x280B, 0x2807]), (''reduce'', [0x2817, 0x2819]),
      (''find'', [0x280B, 0x2819]), (''console'', [0x2809, 0x2815]),
      (''log'', [0x2807, 0x281B]), (''error'', [0x2811, 0x2817]),
      (''warn'', [0x283A, 0x2817]), (''debug'', [0x2819, 0x2803]),
      (''document'', [0x2819, 0x2809]), (''window'', [0x283A, 0x2819]),
      (''element'', [0x2811, 0x2807]), (''addEventListener'', [0x2801, 0x2807]),
      (''removeEventListener'', [0x2817, 0x2807]), (''getElementById'', [0x281B, 0x280A]),
      (''querySelector'', [0x281F, 0x280E]), (''createElement'', [0x2809, 0x2811]),
      (''appendChild'', [0x2801, 0x2809]), (''removeChild'', [0x2817, 0x2809]),
      (''innerHTML'', [0x280A, 0x2813]), (''textContent'', [0x281E, 0x2809]),
      (''setAttribute'', [0x280E, 0x2801]), (''getAttribute'', [0x281B, 0x2801]),
      (''classList'', [0x2809, 0x2807]), (''style'', [0x280E, 0x281E]),
      (''setTimeout'', [0x280E, 0x281E]), (''setInterval'', [0x280E, 0x280A]),
      (''clearTimeout'', [0x2809, 0x281E]), (''clearInterval'', [0x2809, 0x280A])]"

text \<open>The \<^verbatim>\<open>startsWith\<close> chain of \<^verbatim>\<open>handleProgrammingSymbol\<close>, in its order.\<close>

definition operatorGlyphs :: "(string \<times> nat list \<times> nat) list" where
  "operatorGlyphs =
     [(''=='', [0x2828, 0x2805, 0x2828, 0x2805], 2),
      (''!='', [0x280C, 0x2828, 0x2805], 2),
      (''<='', [0x2808, 0x2823, 0x2828, 0x2805], 2),
      (''>='', [0x2808, 0x281C, 0x2828, 0x2805], 2),
      (''++'', [0x282C, 0x282C], 2),
      (''--'', [0x2824, 0x2824], 2),
      (''&&'', [0x282F, 0x282F], 2),
      (''||'', [0x2833, 0x2833], 2),
      (''::'', [0x2812, 0x2812], 2),
      (''->'', [0x2824, 0x2808, 0x281C], 2),
      (''=>'', [0x2828, 0x2805, 0x2808, 0x281C], 2),
      (''//'', [0x280C, 0x280C], 2),
      (''/*'', [0x280C, 0x2814], 2),
      (''*/'', [0x2814, 0x280C], 2)]"

definition replacementGlyph :: nat where
  "replacementGlyph = 0x283F"

definition updateContext :: "BrailleContext \<Rightarrow> nat \<Rightarrow> BrailleContext" where
  "updateContext ctx c =
     (if c = code dquote \<or> c = code quote
      then (if \<not> inComment ctx then ctx\<lparr>inString := \<not> inString ctx\<rparr> else ctx)
      else if c = code (CHR ''/'') then ctx\<lparr>inComment := True\<rparr>
      else if c = code (CHR 0x0A) then ctx\<lparr>inComment := False\<rparr>
      else if c = code (CHR ''('') then ctx\<lparr>parenthesesLevel := parenthesesLevel ctx + 1\<rparr>
      else if c = code (CHR '')'') then ctx\<lparr>parenthesesLevel := parenthesesLevel ctx - 1\<rparr>
      else if c = code (CHR ''['') then ctx\<lparr>bracketsLevel := bracketsLevel ctx + 1\<rparr>
      else if c = code (CHR '']'') then ctx\<lparr>bracketsLevel := bracketsLevel ctx - 1\<rparr>
      else if c = code (CHR ''{'') then ctx\<lparr>bracesLevel := bracesLevel ctx + 1\<rparr>
      else if c = code (CHR ''}'') then ctx\<lparr>bracesLevel := bracesLevel ctx - 1\<rparr>
      else ctx)"

text \<open>
  One \<^verbatim>\<open>for\<close> loop of \<^verbatim>\<open>findLongestContraction\<close> over the entries of a table, on the
  pair (\<^verbatim>\<open>longestMatch\<close>, \<^verbatim>\<open>maxLength\<close>).  The word must start the lower-cased text, be
  longer than the longest so far, and be followed in the text by the end or by a
  character outside \<^verbatim>\<open>[a-zA-Z0-9_]\<close>.
\<close>

fun contractionLoop ::
  "(nat list \<Rightarrow> nat list) \<Rightarrow> nat list \<Rightarrow> (nat list \<times> nat list) list
   \<Rightarrow> BrailleMatch option \<times> nat \<Rightarrow> BrailleMatch option \<times> nat" where
  "contractionLoop hostLowerCase txt [] acc = acc"
| "contractionLoop hostLowerCase txt (entry # entries) acc =
     contractionLoop hostLowerCase txt entries
       (if prefix (fst entry) (toLowerCaseUnits hostLowerCase txt) \<and> snd acc < length (fst entry)
           \<and> (case js_index txt (int (length (fst entry))) of
                 None \<Rightarrow> True
               | Some nextChar \<Rightarrow> \<not> isWordUnit nextChar)
        then (Some \<lparr>braille = snd entry, len = length (fst entry)\<rparr>, length (fst entry))
        else acc)"

text \<open>The entries of \<^verbatim>\<open>programmingContractions\<close>, the words as code units.\<close>

definition contractionEntries :: "(nat list \<times> nat list) list" where
  "contractionEntries = map (\<lambda>entry. (units (fst entry), snd entry)) programmingContractions"

definition findLongestContraction ::
  "(nat list \<Rightarrow> nat list) \<Rightarrow> (nat list \<times> nat list) list \<Rightarrow> nat list \<Rightarrow> BrailleMatch option" where
  "findLongestContraction hostLowerCase customContractions txt =
     fst (contractionLoop hostLowerCase txt customContractions
            (contractionLoop hostLowerCase txt contractionEntries (None, 0)))"

definition handleProgrammingSymbol :: "nat list \<Rightarrow> BrailleContext \<Rightarrow> BrailleMatch option" where
  "handleProgrammingSymbol txt ctx =
     (case List.find (\<lambda>op. prefix (units (fst op)) txt) operatorGlyphs of
        None \<Rightarrow> None
      | Some op \<Rightarrow> Some \<lparr>braille = fst (snd op), len = snd (snd op)\<rparr>)"

text \<open>\<^verbatim>\<open>text.match(/^[\d.]+/)\<close>\<close>

definition extractNumberSequence :: "nat list \<Rightarrow> nat list option" where
  "extractNumberSequence txt =
     (let m = takeWhile (\<lambda>c. isDigitUnit c \<or> c = code (CHR ''.'')) txt
      in if m = [] then None else Some m)"

definition convertNumbersToBraille :: "nat list \<Rightarrow> nat list" where
  "convertNumbersToBraille numbers =
     concat (map (\<lambda>c. if c = code (CHR ''.'') then [0x2828]
                       else (case glyphOf [c] of
                               None \<Rightarrow> [replacementGlyph]
                             | Some u \<Rightarrow> if u = [] then [replacementGlyph] else u)) numbers)"

text \<open>The last branch of the loop: the glyph of one character, with the capital sign.\<close>

definition regularGlyph :: "(nat list \<Rightarrow> nat list) \<Rightarrow> nat \<Rightarrow> nat list" where
  "regularGlyph hostLowerCase c =
     (case glyphOf (toLowerCaseUnits hostLowerCase [c]) of
        Some u \<Rightarrow> (if [c] \<noteq> toLowerCaseUnits hostLowerCase [c] \<and> 65 \<le> c \<and> c \<le> 90
                   then [0x2820] else []) @ u
      | None \<Rightarrow> [replacementGlyph])"

text \<open>
  The \<^verbatim>\<open>while\<close> loop over a line, on the rest of the line and the context.  Each
  iteration consumes the contraction, the operator, the number or one character, so it
  ends: the three facts below show that each of the first three is at least one
  character long.
\<close>

lemma contractionLoop_len:
  "(\<forall>m. fst acc = Some m \<longrightarrow> 0 < len m) \<Longrightarrow>
   fst (contractionLoop lc txt entries acc) = Some m \<Longrightarrow> 0 < len m"
proof (induction entries arbitrary: acc)
  case Nil
  then show ?case by simp
next
  case (Cons entry entries)
  show ?case
  proof (rule Cons.IH [OF _ Cons.prems(2) [unfolded contractionLoop.simps]])
    show "\<forall>m. fst (if prefix (fst entry) (toLowerCaseUnits lc txt) \<and> snd acc < length (fst entry)
           \<and> (case js_index txt (int (length (fst entry))) of
                 None \<Rightarrow> True
               | Some nextChar \<Rightarrow> \<not> isWordUnit nextChar)
        then (Some \<lparr>braille = snd entry, len = length (fst entry)\<rparr>, length (fst entry))
        else acc) = Some m \<longrightarrow> 0 < len m"
      using Cons.prems(1) by auto
  qed
qed

lemma findLongestContraction_len:
  "findLongestContraction lc cu txt = Some m \<Longrightarrow> 0 < len m"
  unfolding findLongestContraction_def
  by (rule contractionLoop_len [where acc = "contractionLoop lc txt contractionEntries (None, 0)"],
      (auto dest: contractionLoop_len [where acc = "(None, 0)", rotated]))

lemma handleProgrammingSymbol_len:
  "handleProgrammingSymbol txt ctx = Some m \<Longrightarrow> len m = 2"
  by (auto simp: handleProgrammingSymbol_def operatorGlyphs_def split: option.splits if_splits)

lemma extractNumberSequence_len:
  "extractNumberSequence txt = Some ns \<Longrightarrow> 0 < length ns"
  by (auto simp: extractNumberSequence_def Let_def split: if_splits)

function convertChars ::
  "(nat list \<Rightarrow> nat list) \<Rightarrow> BrailleSettings \<Rightarrow> (nat list \<times> nat list) list \<Rightarrow> nat list
   \<Rightarrow> BrailleContext \<Rightarrow> BrailleContext \<times> nat list" where
  "convertChars lc st cu [] ctx = (ctx, [])"
| "convertChars lc st cu (c # cs) ctx =
     (let ctx1 = updateContext ctx c in
      case (if contractionsEnabled st \<and> grade st = Grade2
            then findLongestContraction lc cu (c # cs) else None) of
        Some contraction \<Rightarrow>
          (let r = convertChars lc st cu (drop (len contraction) (c # cs)) ctx1
           in (fst r, braille contraction @ snd r))
      | None \<Rightarrow>
          (case (if computerBraille st then handleProgrammingSymbol (c # cs) ctx1 else None) of
             Some programmingSymbol \<Rightarrow>
               (let r = convertChars lc st cu (drop (len programmingSymbol) (c # cs)) ctx1
                in (fst r, braille programmingSymbol @ snd r))
           | None \<Rightarrow>
               (case (if isDigitUnit c then extractNumberSequence (c # cs) else None) of
                  Some numberSequence \<Rightarrow>
                    (let r = convertChars lc st cu (drop (length numberSequence) (c # cs)) ctx1
                     in (fst r, 0x283C # convertNumbersToBraille numberSequence @ snd r))
                | None \<Rightarrow>
                    (let r = convertChars lc st cu cs (ctx1\<lparr>ctxColumn := ctxColumn ctx1 + 1\<rparr>)
                     in (fst r, regularGlyph lc c @ snd r)))))"
  by pat_completeness auto
termination
proof (relation "measure (\<lambda>(lc, st, cu, txt, ctx). length txt)")
  show "wf (measure (\<lambda>(lc, st, cu, txt, ctx). length txt))" by simp
qed (auto split: if_splits dest: findLongestContraction_len handleProgrammingSymbol_len
      extractNumberSequence_len)

text \<open>\<^verbatim>\<open>w.padStart(3, '0')\<close>\<close>

definition padStart3 :: "string \<Rightarrow> string" where
  "padStart3 w = replicate (3 - length w) (CHR ''0'') @ w"

text \<open>The part of a converted line before its characters: line number and indentation.\<close>

definition linePrefix :: "BrailleSettings \<Rightarrow> nat \<Rightarrow> nat \<Rightarrow> nat list" where
  "linePrefix st lineIndex indent =
     (if showLineNumbers st \<and> \<not> compactMode st
      then convertNumbersToBraille (units (padStart3 (toString (lineIndex + 1)))) @ [0x2812, 0x20]
      else [])
     @ (if 0 < indent \<and> preserveFormatting st then replicate indent 0x2800 else [])"

text \<open>
  The body of the \<^verbatim>\<open>forEach\<close> over the lines; the context lives across the lines.  The
  indentation is the length of the match of \<^verbatim>\<open>/^\s*/\<close>, halved.
\<close>

definition convertLine ::
  "(nat list \<Rightarrow> nat list) \<Rightarrow> BrailleSettings \<Rightarrow> (nat list \<times> nat list) list \<Rightarrow> nat \<Rightarrow> nat list
   \<Rightarrow> BrailleContext \<Rightarrow> BrailleContext \<times> nat list" where
  "convertLine lc st cu lineIndex lin ctx =
     (let ctx0 = ctx\<lparr>ctxLine := lineIndex + 1, ctxColumn := 1,
                     indentLevel := length (takeWhile isWhiteSpaceUnit lin) div 2\<rparr>;
          r = convertChars lc st cu lin ctx0
      in (fst r, linePrefix st lineIndex (indentLevel ctx0) @ snd r))"

fun convertLines ::
  "(nat list \<Rightarrow> nat list) \<Rightarrow> BrailleSettings \<Rightarrow> (nat list \<times> nat list) list \<Rightarrow> nat
   \<Rightarrow> nat list list \<Rightarrow> BrailleContext \<Rightarrow> nat list list" where
  "convertLines lc st cu lineIndex [] ctx = []"
| "convertLines lc st cu lineIndex (lin # lins) ctx =
     (let r = convertLine lc st cu lineIndex lin ctx
      in snd r # convertLines lc st cu (Suc lineIndex) lins (fst r))"

text \<open>\<^verbatim>\<open>convertedLines.join('\n')\<close>\<close>

fun joinLines :: "nat list list \<Rightarrow> nat list" where
  "joinLines [] = []"
| "joinLines [l] = l"
| "joinLines (l # ls) = l @ [0x0A] @ joinLines ls"

definition initialContext :: BrailleContext where
  "initialContext =
     \<lparr>ctxLine = 1, ctxColumn = 1, indentLevel = 0, inString = False, inComment = False,
      inFunction = False, inClass = False, parenthesesLevel = 0, bracketsLevel = 0,
      bracesLevel = 0\<rparr>"

text \<open>
  \<^verbatim>\<open>convertToBraille\<close>, with the settings and the custom contractions of the component
  state as arguments.
\<close>

definition convertToBraille ::
  "(nat list \<Rightarrow> nat list) \<Rightarrow> BrailleSettings \<Rightarrow> (nat list \<times> nat list) list \<Rightarrow> nat list \<Rightarrow> nat list" where
  "convertToBraille lc st customContractions txt =
     (if txt = [] then []
      else joinLines (convertLines lc st customContractions 0 (js_split 0x0A txt) initialContext))"

text \<open>The settings the component starts with, and its custom contractions (never set).\<close>

definition defaultSettings :: BrailleSettings where
  "defaultSettings =
     \<lparr>grade = Grade2, cellsPerLine = 40, lineSpacing = 1.5, fontSize = 24,
      showDotNumbers = False, showAsciiEquivalent = False, contractionsEnabled = True,
      mathNotation = True, computerBraille = True, unicode8Dot = False,
      tactileFeedback = False, audioFeedback = True, autoRefresh = True,
      preserveFormatting = True, showLineNumbers = True, compactMode = False\<rparr>"

subsection \<open>Numbers\<close>

text \<open>
  A JavaScript number is an IEEE 754 double.  A finite double is modelled by the real
  number it denotes, and an arithmetic operation by the exact operation followed by
  \<open>fl\<close>, the rounding to the nearest double, a tie going to the even significand: a
  number \<open>x\<close> with \<open>2 ^ e \<le> \<bar>x\<bar> < 2 ^ (e + 1)\<close> is rounded to a multiple of
  \<open>2 ^ (e - 52)\<close>, the spacing of the doubles of that size (a significand has 53 bits).
  This is the rounding of the doubles between \<open>2 ^ (-1022)\<close> and \<open>2 ^ 1024\<close>; the numbers
  that \<^verbatim>\<open>calculateStats\<close> computes from the lengths of two strings (integers below
  \<open>2 ^ 53\<close>) lie between \<open>2 ^ (-53)\<close> and \<open>2 ^ 67\<close> when they are not zero, so overflow
  and the subnormal numbers are not modelled.  The one \<^verbatim>\<open>NaN\<close> that \<^verbatim>\<open>calculateStats\<close>
  can compute is modelled by \<open>None\<close> there.
\<close>

definition exponent :: "real \<Rightarrow> int" where
  "exponent x = \<lfloor>log 2 \<bar>x\<bar>\<rfloor>"

definition roundTiesToEven :: "real \<Rightarrow> int" where
  "roundTiesToEven y =
     (if y - of_int \<lfloor>y\<rfloor> < 1 / 2 then \<lfloor>y\<rfloor>
      else if 1 / 2 < y - of_int \<lfloor>y\<rfloor> then \<lfloor>y\<rfloor> + 1
      else if even \<lfloor>y\<rfloor> then \<lfloor>y\<rfloor> else \<lfloor>y\<rfloor> + 1)"

definition fl :: "real \<Rightarrow> real" where
  "fl x =
     (if x = 0 then 0
      else of_int (roundTiesToEven (x / 2 powi (exponent x - 52))) * 2 powi (exponent x - 52))"

text \<open>
  \<^verbatim>\<open>Math.round\<close>: the nearest integer, a half rounding up.  It is exact: the result is
  a double.
\<close>

definition Math_round :: "real \<Rightarrow> real" where
  "Math_round x = of_int \<lfloor>x + 1 / 2\<rfloor>"

subsection \<open>Statistics\<close>

text \<open>
  \<^verbatim>\<open>/\b(function|return|class|const|let|var)\b/g\<close>.  The pattern tells apart the
  characters of \<^verbatim>\<open>[a-zA-Z0-9_]\<close>, which are below 256, and all the others; so it is run
  on the text with every code unit from 256 on replaced by U+0080, which is one of the
  others.
\<close>

definition keywordRx :: rx where
  "keywordRx = rx_seq
     [WordB,
      Group 1 (Alt (Lit ''function'') (Alt (Lit ''return'') (Alt (Lit ''class'')
              (Alt (Lit ''const'') (Alt (Lit ''let'') (Lit ''var'')))))),
      WordB]"

definition unitChar :: "nat \<Rightarrow> char" where
  "unitChar u = (if u < 256 then char_of u else CHR 0x80)"

text \<open>
  The statistics \<^verbatim>\<open>calculateStats\<close> stores.  The two lengths and their difference are
  integers and exact; each division, multiplication and subtraction rounds.  The accuracy
  is \<open>None\<close> where JavaScript computes \<^verbatim>\<open>NaN\<close> (no character and no cell, \<^verbatim>\<open>0 / 0\<close>), and
  0 where it divides a positive number by zero (\<^verbatim>\<open>100 - Infinity\<close>, raised to 0 by
  \<^verbatim>\<open>Math.max\<close>).
\<close>

record ConversionStats =
  totalCharacters :: nat
  brailleCells :: nat
  contractions :: nat
  accuracy :: "real option"
  compressionRatio :: real

definition calculateStats :: "nat list \<Rightarrow> nat list \<Rightarrow> ConversionStats" where
  "calculateStats originalText brailleText =
     (let totalChars = length originalText;
          cells = length (filter (\<lambda>u. \<not> isWhiteSpaceUnit u) brailleText);
          found = length (matchAll keywordRx (map unitChar originalText) 0);
          acc = (if totalChars = 0 then (if cells = 0 then None else Some 0)
                 else Some (min 100 (max 0
                        (fl (100 - fl (fl (\<bar>real totalChars - real cells\<bar> / real totalChars) * 100))))));
          ratio = (if 0 < totalChars then fl (fl (real cells / real totalChars) * 100) else 0)
      in \<lparr>totalCharacters = totalChars,
          brailleCells = cells,
          contractions = found,
          accuracy = map_option (\<lambda>a. fl (Math_round (fl (a * 10)) / 10)) acc,
          compressionRatio = fl (Math_round (fl (ratio * 100)) / 100)\<rparr>)"

text \<open>What the conversion effect computes for a text: the Braille text and its statistics.\<close>

definition transliterate ::
  "(nat list \<Rightarrow> nat list) \<Rightarrow> BrailleSettings \<Rightarrow> (nat list \<times> nat list) list \<Rightarrow> nat list
   \<Rightarrow> nat list \<times> ConversionStats" where
  "transliterate lc st customContractions txt =
     (convertToBraille lc st customContractions txt,
      calculateStats txt (convertToBraille lc st customContractions txt))"

section \<open>Properties stated below: auxiliary definitions and example data\<close>

text \<open>
  A scope is named by a list of earlier elements when it is \<^verbatim>\<open>global\<close> or the name of a
  function or class among them; \<open>scopesNamed earlier es\<close> says that the scope of every
  element of \<open>es\<close> is named by the elements before it (those of \<open>earlier\<close> included).
\<close>

definition namesScope :: "CodeElement list \<Rightarrow> string \<Rightarrow> bool" where
  "namesScope earlier s =
     (s = ''global'' \<or> (\<exists>d \<in> set earlier. name d = s \<and> (type d = Function \<or> type d = Class)))"

fun scopesNamed :: "CodeElement list \<Rightarrow> CodeElement list \<Rightarrow> bool" where
  "scopesNamed earlier [] = True"
| "scopesNamed earlier (e # es) = (namesScope earlier (scope e) \<and> scopesNamed (earlier @ [e]) es)"

text \<open>
  The invariant of the scan before line \<open>n\<close>: scopes are named, the current scope is
  named, the elements are in line order with lines up to \<open>n\<close>, and imports are global.
\<close>

definition scanInv :: "nat \<Rightarrow> ScanState \<Rightarrow> bool" where
  "scanInv n st =
     (scopesNamed [] (elements st)
      \<and> namesScope (elements st) (currentScope st)
      \<and> sorted_wrt (\<lambda>a b. line a \<le> line b) (elements st)
      \<and> (\<forall>e \<in> set (elements st). line e \<le> n)
      \<and> (\<forall>e \<in> set (elements st). type e = Import \<longrightarrow> scope e = ''global''))"

definition sampleNested :: string where
  "sampleNested = ''function add(a, b) {'' @ [CHR 0x0A] @ ''  const s = a + b;'' @ [CHR 0x0A]
     @ ''  import y from '' @ [dquote] @ ''z'' @ [dquote]"

definition sampleClass :: string where
  "sampleClass = ''class Shape {'' @ [CHR 0x0A] @ ''  import y from '' @ [dquote] @ ''z'' @ [dquote]
     @ [CHR 0x0A] @ ''  let n = 0;''"

definition searchElements :: "CodeElement list" where
  "searchElements =
     [CodeElement ''function-0'' Function ''add'' 1 10 1 20 ''global''
        (Some [''a'', ''b'']) (Some False) (Some ''Function with 2 parameters'') (Some 1) None,
      CodeElement ''variable-1'' Variable ''s'' 2 6 2 18 ''add'' None None
        (Some ''const variable initialized with a + b;'') (Some 1) None,
      CodeElement ''comment-2'' Comment ''note'' 3 1 3 7 ''global'' None None
        (Some ''Code comment'') None None]"

definition settingsDesc :: NavigationSettings where
  "settingsDesc =
     \<lparr>showLineNumbers_nav = True, showScope = True, showComplexity = False, groupByType = False,
      sortBy = ByLine, sortOrder = Desc, filterTypes = [], maxDepth = 5,
      enableAudioFeedback = True, enableHapticFeedback = False, autoFocus = True,
      persistState = True\<rparr>"

definition settingsFiltered :: NavigationSettings where
  "settingsFiltered = settingsDesc\<lparr>filterTypes := [''variable'']\<rparr>"

definition store2 :: Store where
  "store2 = \<lparr>arrays = [0 \<mapsto> [elemA, elemB]], fresh = 1\<rparr>"

definition keywordDescriptor :: ToneDescriptor where
  "keywordDescriptor = \<lparr>frequency = 770, duration = 0.3, waveform = Sawtooth,
         envelope = Some \<lparr>attack = 0.07, decay = 0.13, sustain = 0.78, release = 0.22\<rparr>\<rparr>"

definition functionDescriptor :: ToneDescriptor where
  "functionDescriptor = \<lparr>frequency = 440, duration = 0.5, waveform = Sine,
         envelope = Some \<lparr>attack = 0.1, decay = 0.2, sustain = 0.7, release = 0.3\<rparr>\<rparr>"

definition synth0 :: Synth where
  "synth0 = \<lparr>oscillatorType = Triangle,
     synthEnvelope = \<lparr>attack = 0.1, decay = 0.2, sustain = 0.5, release = 0.8\<rparr>,
     triggered = [], panners = []\<rparr>"

definition audio0 :: AudioState where
  "audio0 = \<lparr>table = audioMappings, synthRef = Some synth0\<rparr>"



section \<open>The scanner: theorems\<close>

subsection \<open>Matches never move backwards\<close>

lemma rx_match_advance: "e \<in> set (rx_match r s st) \<Longrightarrow> fst st \<le> fst e"
proof (induction r arbitrary: st e)
  case (Seq a b)
  then obtain d where "d \<in> set (rx_match a s st)" and "e \<in> set (rx_match b s d)"
    by auto
  with Seq.IH show ?case by (meson order_trans)
qed (auto split: if_splits list.splits)

lemma rx_exec_bounds:
  assumes "rx_exec r s from = Some m"
  shows "from \<le> fst m \<and> fst m \<le> length s \<and> fst m \<le> fst (snd m)"
proof -
  from assms obtain i e es where
    f: "List.find (\<lambda>i. rx_match r s (i, Map.empty) \<noteq> []) [from ..< Suc (length s)] = Some i"
    and e: "rx_match r s (i, Map.empty) = e # es" and m: "m = (i, fst e, snd e)"
    by (auto simp: rx_exec_def split: option.splits list.splits)
  from f have "i \<in> set [from ..< Suc (length s)]"
    by (metis find_Some_iff nth_mem)
  moreover from e have "fst (i, Map.empty :: captures) \<le> fst e"
    by (intro rx_match_advance [of e r s]) simp
  ultimately show ?thesis using m by auto
qed

text \<open>The loop of \<open>matchAll\<close> as the engine runs it: its guard never fires.\<close>

lemma matchAll_unfold:
  "matchAll r s from =
     (case rx_exec r s from of
        None \<Rightarrow> []
      | Some m \<Rightarrow> (fst m, fst (snd m))
                  # matchAll r s (if fst (snd m) = fst m then Suc (fst (snd m)) else fst (snd m)))"
proof (cases "rx_exec r s from")
  case None
  then show ?thesis by (simp add: matchAll.simps [of r s "from"])
next
  case (Some m)
  with rx_exec_bounds [OF Some] show ?thesis
    by (simp add: matchAll.simps [of r s "from"])
qed

subsection \<open>The complexity heuristic throws\<close>

text \<open>
  The last keyword of \<^verbatim>\<open>calculateComplexity\<close> is \<^verbatim>\<open>?\<close>, and \<^verbatim>\<open>\b?\b\<close> is no regular
  expression: the function throws on every line.
\<close>

lemma calculateComplexity_throws: "calculateComplexity lin = Inl SyntaxError"
  by (simp add: calculateComplexity_def complexityKeywords_def RegExp_gi_def backslash_def)

text \<open>
  Claim C1.  On the line \<^verbatim>\<open>function add(a, b) {\<close> the scanner recognises a function, calls
  \<^verbatim>\<open>calculateComplexity\<close>, and that call throws: \<^verbatim>\<open>parseCode\<close> returns no element.  Before
  the throw the pattern \<^verbatim>\<open>\b||\b\<close> has matched the empty string at each of the 21
  positions of the line, so the running complexity was 22, not 1.  With a complexity
  function that returns 1 the scan emits the one element of the claim.
\<close>

theorem parseCode_add_throws:
  "parseCode ''function add(a, b) {'' = Inl SyntaxError
   \<and> complexityLoop ''function add(a, b) {'' (butlast complexityKeywords) 1 = Inr 22
   \<and> parseCodeWith (\<lambda>_. Inr 1) ''function add(a, b) {''
       = Inr [CodeElement ''function-0'' Function ''add'' 1 10 1 20 ''global''
               (Some [''a'', ''b'']) (Some False) (Some ''Function with 2 parameters'')
               (Some 1) None]"
  by code_simp

subsection \<open>Scopes\<close>

lemma insort_cmp_head:
  "\<forall>y \<in> set ys. cmp x y \<le> 0 \<Longrightarrow> insort_cmp cmp x ys = x # ys"
  by (cases ys) auto

lemma js_sort_sorted:
  "sorted_wrt (\<lambda>a b. cmp a b \<le> 0) xs \<Longrightarrow> js_sort cmp xs = xs"
proof (induction xs)
  case Nil
  then show ?case by (simp add: js_sort_def)
next
  case (Cons x xs)
  then have "js_sort cmp xs = xs" by simp
  moreover have "js_sort cmp (x # xs) = insort_cmp cmp x (js_sort cmp xs)"
    by (simp add: js_sort_def)
  ultimately show ?case using Cons.prems by (simp add: insort_cmp_head)
qed

lemma namesScope_mono: "namesScope es s \<Longrightarrow> namesScope (es @ ds) s"
  by (auto simp: namesScope_def)

lemma scopesNamed_snoc:
  "scopesNamed earlier (es @ [e]) = (scopesNamed earlier es \<and> namesScope (earlier @ es) (scope e))"
  by (induction es arbitrary: earlier) auto

lemma scanInv_mono: "scanInv n st \<Longrightarrow> n \<le> m \<Longrightarrow> scanInv m st"
  by (auto simp: scanInv_def)

lemma scanInv_push:
  assumes "scanInv n st" and "line e = n"
    and "scope e = ''global'' \<or> scope e = currentScope st"
    and "type e = Import \<longrightarrow> scope e = ''global''"
  shows "scanInv n (push e st)"
proof -
  have "namesScope (elements st) (scope e)"
    using assms(1,3) by (auto simp: scanInv_def namesScope_def)
  then show ?thesis
    using assms
    by (auto simp: scanInv_def push_def scopesNamed_snoc namesScope_mono sorted_wrt_append)
qed

lemma scanInv_enter:
  assumes "scanInv n (push e st)" and "type e = Function \<or> type e = Class"
  shows "scanInv n ((push e st)\<lparr>currentScope := name e\<rparr>)"
  using assms by (auto simp: scanInv_def push_def namesScope_def)

lemma scanInv_push_enter:
  assumes "scanInv n st" and "line e = n" and "scope e = currentScope st"
    and "type e = Function \<or> type e = Class" and "nm = name e"
  shows "scanInv n ((push e st)\<lparr>currentScope := nm\<rparr>)"
proof -
  have "scanInv n (push e st)"
    using assms(1,2,3,4) by (intro scanInv_push) auto
  then show ?thesis using assms(4,5) by (simp add: scanInv_enter)
qed
lemma detectFunction_inv:
  assumes "scanInv (Suc i) st" and "detectFunction cc i lin tr st = Inr st'"
  shows "scanInv (Suc i) st'"
proof (cases "js_match functionRx tr")
  case None
  with assms show ?thesis by (simp add: detectFunction_def)
next
  case (Some m)
  show ?thesis
  proof (cases "cc tr")
    case (Inl err)
    with Some assms(2) show ?thesis by (simp add: detectFunction_def Let_def)
  next
    case (Inr c)
    with Some assms(2) have "(push
        (CodeElement (''function-'' @ toString (elementId st)) Function (group m 3)
           (i + 1) (nat (indexOf lin (group m 3) + 1)) (i + 1) (length lin)
           (currentScope st) (Some (paramNames (group m 5))) (Some (m 1 \<noteq> None \<or> m 4 \<noteq> None))
           (Some (''Function with '' @ toString (length (paramNames (group m 5))) @ '' parameter''
                  @ (if length (paramNames (group m 5)) \<noteq> 1 then ''s'' else [])))
           (Some c) None) st)\<lparr>currentScope := group m 3\<rparr> = st'"
      by (simp add: detectFunction_def Let_def)
    then show ?thesis using assms(1) by (auto intro!: scanInv_push_enter)
  qed
qed

lemma detectClass_inv:
  assumes "scanInv (Suc i) st" and "detectClass cc i lin tr st = Inr st'"
  shows "scanInv (Suc i) st'"
proof (cases "js_match classRx tr")
  case None
  with assms show ?thesis by (simp add: detectClass_def)
next
  case (Some m)
  show ?thesis
  proof (cases "cc tr")
    case (Inl err)
    with Some assms(2) show ?thesis by (simp add: detectClass_def Let_def)
  next
    case (Inr c)
    with Some assms(2) obtain d where "(push
        (CodeElement (''class-'' @ toString (elementId st)) Class (group m 3)
           (i + 1) (nat (indexOf lin (group m 3) + 1)) (i + 1) (length lin)
           (currentScope st) None None d (Some c) (Some [])) st)\<lparr>currentScope := group m 3\<rparr> = st'"
      by (simp add: detectClass_def Let_def)
    then show ?thesis using assms(1) by (auto intro!: scanInv_push_enter)
  qed
qed

lemma detectVariable_inv:
  assumes "scanInv (Suc i) st"
  shows "scanInv (Suc i) (detectVariable i lin tr st)"
proof (cases "js_match variableRx tr")
  case None
  with assms show ?thesis by (simp add: detectVariable_def)
next
  case (Some m)
  with assms show ?thesis
    by (simp add: detectVariable_def Let_def scanInv_push)
qed

lemma detectImport_inv:
  assumes "scanInv (Suc i) st"
  shows "scanInv (Suc i) (detectImport i lin tr st)"
proof (cases "js_match importRx tr")
  case None
  with assms show ?thesis by (simp add: detectImport_def)
next
  case (Some m)
  with assms show ?thesis
    by (simp add: detectImport_def Let_def scanInv_push)
qed

lemma detectExport_inv:
  assumes "scanInv (Suc i) st"
  shows "scanInv (Suc i) (detectExport i lin tr st)"
proof (cases "js_match exportRx tr")
  case None
  with assms show ?thesis by (simp add: detectExport_def)
next
  case (Some m)
  with assms show ?thesis
    by (simp add: detectExport_def Let_def scanInv_push)
qed

lemma detectLoop_inv:
  assumes "scanInv (Suc i) st" and "detectLoop cc i lin tr st = Inr st'"
  shows "scanInv (Suc i) st'"
proof (cases "js_match loopRx tr")
  case None
  with assms show ?thesis by (simp add: detectLoop_def)
next
  case (Some m)
  with assms show ?thesis
    by (cases "cc tr") (auto simp: detectLoop_def Let_def scanInv_push)
qed

lemma detectConditional_inv:
  assumes "scanInv (Suc i) st" and "detectConditional cc i lin tr st = Inr st'"
  shows "scanInv (Suc i) st'"
proof (cases "js_match conditionalRx tr")
  case None
  with assms show ?thesis by (simp add: detectConditional_def)
next
  case (Some m)
  with assms show ?thesis
    by (cases "cc tr") (auto simp: detectConditional_def Let_def scanInv_push)
qed

lemma andThen_Inr: "andThen m f = Inr v \<Longrightarrow> \<exists>u. m = Inr u \<and> f u = Inr v"
  by (cases m) (auto simp: andThen_def)

lemma scanLine_inv:
  assumes "scanInv i st" and "scanLine cc i lin st = Inr st'"
  shows "scanInv (Suc i) st'"
proof -
  have inv: "scanInv (Suc i) st" using assms(1) by (rule scanInv_mono) simp
  show ?thesis
  proof (cases "trim lin = [] \<or> prefix ''//'' (trim lin) \<or> prefix ''/*'' (trim lin)")
    case True
    with assms(2) inv show ?thesis
      by (auto simp: scanLine_def Let_def commentElement_def split: if_splits
          intro!: scanInv_push)
  next
    case False
    with assms(2) obtain st1 st2 st3 where
      s1: "detectFunction cc i lin (trim lin) st = Inr st1" and
      s2: "detectClass cc i lin (trim lin) st1 = Inr st2" and
      s3: "detectLoop cc i lin (trim lin)
             (detectExport i lin (trim lin) (detectImport i lin (trim lin)
               (detectVariable i lin (trim lin) st2))) = Inr st3" and
      s4: "detectConditional cc i lin (trim lin) st3 = Inr st'"
      by (auto simp: scanLine_def Let_def dest!: andThen_Inr)
    from inv s1 have "scanInv (Suc i) st1" by (rule detectFunction_inv)
    with s2 have "scanInv (Suc i) st2" by (rule detectClass_inv [rotated])
    then have "scanInv (Suc i) (detectExport i lin (trim lin) (detectImport i lin (trim lin)
               (detectVariable i lin (trim lin) st2)))"
      by (intro detectExport_inv detectImport_inv detectVariable_inv)
    with s3 have "scanInv (Suc i) st3" by (rule detectLoop_inv [rotated])
    with s4 show ?thesis by (rule detectConditional_inv [rotated])
  qed
qed

lemma scanLines_inv:
  "scanInv i st \<Longrightarrow> scanLines cc i lins st = Inr st' \<Longrightarrow> \<exists>n. scanInv n st'"
proof (induction lins arbitrary: i st)
  case Nil
  then show ?case by auto
next
  case (Cons lin lins)
  from Cons.prems(2) obtain st1 where
    a: "scanLine cc i lin st = Inr st1" and b: "scanLines cc (Suc i) lins st1 = Inr st'"
    by (auto dest!: andThen_Inr)
  from Cons.prems(1) a have "scanInv (Suc i) st1" by (rule scanLine_inv)
  then show ?case using b by (rule Cons.IH)
qed

lemma parseCodeWith_inv:
  assumes "parseCodeWith cc sourceCode = Inr es"
  shows "scopesNamed [] es \<and> (\<forall>e \<in> set es. type e = Import \<longrightarrow> scope e = ''global'')"
proof -
  from assms obtain st where
    run: "scanLines cc 0 (js_split (CHR 0x0A) sourceCode)
            \<lparr>elements = [], currentScope = ''global'', elementId = 0\<rparr> = Inr st"
    and es: "es = js_sort (\<lambda>a b. int (line a) - int (line b)) (elements st)"
    by (auto simp: parseCodeWith_def dest!: andThen_Inr)
  have "scanInv 0 \<lparr>elements = [], currentScope = ''global'', elementId = 0\<rparr>"
    by (simp add: scanInv_def namesScope_def)
  from scanLines_inv [OF this run] obtain n where inv: "scanInv n st" ..
  then have "sorted_wrt (\<lambda>a b. int (line a) - int (line b) \<le> 0) (elements st)"
    by (simp add: scanInv_def)
  then have "es = elements st" using es by (simp add: js_sort_sorted)
  with inv show ?thesis by (simp add: scanInv_def)
qed

text \<open>
  \<^verbatim>\<open>parseCode\<close> is the scan \<open>parseCodeWith\<close> with \<^verbatim>\<open>calculateComplexity\<close> as its complexity
  function, so what holds of the scan with any complexity function holds of it.
\<close>

lemma parseCode_inv:
  assumes "parseCode sourceCode = Inr es"
  shows "scopesNamed [] es \<and> (\<forall>e \<in> set es. type e = Import \<longrightarrow> scope e = ''global'')"
  using assms parseCodeWith_inv [of calculateComplexity sourceCode es]
  by (simp add: parseCode_def)

text \<open>
  Claim C7.  Whatever the complexity function and the source text, every element that
  the scan of \<^verbatim>\<open>parseCode\<close> returns has the scope \<^verbatim>\<open>global\<close> or the name of a function or
  class element that stands earlier in the returned sequence.
\<close>

theorem parseCodeWith_scopes:
  assumes "parseCodeWith cc sourceCode = Inr es"
  shows "scopesNamed [] es"
  using parseCodeWith_inv [OF assms] by simp

text \<open>
  An instance with a function scope, for a complexity function that returns 1: the
  variable declared inside \<^verbatim>\<open>add\<close> has the scope \<^verbatim>\<open>add\<close>, the name of the function element
  before it.
\<close>

lemma nested_run:
  "parseCodeWith (\<lambda>_. Inr 1) sampleNested =
     Inr [CodeElement ''function-0'' Function ''add'' 1 10 1 20 ''global''
            (Some [''a'', ''b'']) (Some False) (Some ''Function with 2 parameters'') (Some 1) None,
          CodeElement ''variable-1'' Variable ''s'' 2 6 2 18 ''add'' None None
            (Some ''const variable initialized with a + b;'') (Some 1) None,
          CodeElement ''import-2'' Import ''y'' 3 1 3 19 ''global'' None None
            (Some ''Import from z'') (Some 1) None]"
  by code_simp

theorem parseCodeWith_scopes_witness:
  "parseCodeWith (\<lambda>_. Inr 1) sampleNested =
     Inr [CodeElement ''function-0'' Function ''add'' 1 10 1 20 ''global''
            (Some [''a'', ''b'']) (Some False) (Some ''Function with 2 parameters'') (Some 1) None,
          CodeElement ''variable-1'' Variable ''s'' 2 6 2 18 ''add'' None None
            (Some ''const variable initialized with a + b;'') (Some 1) None,
          CodeElement ''import-2'' Import ''y'' 3 1 3 19 ''global'' None None
            (Some ''Import from z'') (Some 1) None]
   \<and> scopesNamed []
        [CodeElement ''function-0'' Function ''add'' 1 10 1 20 ''global''
            (Some [''a'', ''b'']) (Some False) (Some ''Function with 2 parameters'') (Some 1) None,
          CodeElement ''variable-1'' Variable ''s'' 2 6 2 18 ''add'' None None
            (Some ''const variable initialized with a + b;'') (Some 1) None,
          CodeElement ''import-2'' Import ''y'' 3 1 3 19 ''global'' None None
            (Some ''Import from z'') (Some 1) None]"
  using nested_run parseCodeWith_scopes [OF nested_run] by simp

text \<open>
  Claim C10.  Whatever the complexity function and the source text, every import element
  that the scan of \<^verbatim>\<open>parseCode\<close> returns has the scope \<^verbatim>\<open>global\<close>, also when the import line
  stands inside a function or a class.
\<close>

theorem parseCodeWith_import_global:
  assumes "parseCodeWith cc sourceCode = Inr es"
  shows "\<forall>e \<in> set es. type e = Import \<longrightarrow> scope e = ''global''"
  using parseCodeWith_inv [OF assms] by simp

text \<open>
  An instance with an import line inside a class: the import element has the scope
  \<^verbatim>\<open>global\<close>, while the variable on the line after it has the scope \<^verbatim>\<open>Shape\<close>, the current
  scope of the scan since the class line.
\<close>

lemma class_run:
  "parseCodeWith (\<lambda>_. Inr 1) sampleClass =
     Inr [CodeElement ''class-0'' Class ''Shape'' 1 7 1 13 ''global'' None None
            (Some ''Class'') (Some 1) (Some []),
          CodeElement ''import-1'' Import ''y'' 2 1 2 19 ''global'' None None
            (Some ''Import from z'') (Some 1) None,
          CodeElement ''variable-2'' Variable ''n'' 3 7 3 12 ''Shape'' None None
            (Some ''let variable initialized with 0;'') (Some 1) None]"
  by code_simp

theorem parseCodeWith_import_global_witness:
  "parseCodeWith (\<lambda>_. Inr 1) sampleClass =
     Inr [CodeElement ''class-0'' Class ''Shape'' 1 7 1 13 ''global'' None None
            (Some ''Class'') (Some 1) (Some []),
          CodeElement ''import-1'' Import ''y'' 2 1 2 19 ''global'' None None
            (Some ''Import from z'') (Some 1) None,
          CodeElement ''variable-2'' Variable ''n'' 3 7 3 12 ''Shape'' None None
            (Some ''let variable initialized with 0;'') (Some 1) None]
   \<and> type (CodeElement ''import-1'' Import ''y'' 2 1 2 19 ''global'' None None
            (Some ''Import from z'') (Some 1) None) = Import
   \<and> scope (CodeElement ''import-1'' Import ''y'' 2 1 2 19 ''global'' None None
            (Some ''Import from z'') (Some 1) None) = ''global''
   \<and> scope (CodeElement ''variable-2'' Variable ''n'' 3 7 3 12 ''Shape'' None None
            (Some ''let variable initialized with 0;'') (Some 1) None) = ''Shape''"
  using class_run parseCodeWith_import_global [OF class_run] by simp

section \<open>The navigation index: theorems\<close>

subsection \<open>Search\<close>

lemma js_includes_refl: "js_includes s s"
  by (cases s) auto

lemma js_includes_Nil: "q \<noteq> [] \<Longrightarrow> \<not> js_includes [] q"
  by simp

lemma typeBoosts_kindBoost: "typeBoosts k = kindBoost k"
  by (cases k) (simp_all add: typeBoosts_def kindBoost_def)

lemma paramMatch_score:
  "score (paramMatch lq ps r) = score r + 10 * length (filter (\<lambda>p. js_includes (toLowerCase p) lq) ps)"
  by (induction ps arbitrary: r) auto

lemma paramMatch_resElement: "resElement (paramMatch lq ps r) = resElement r"
  by (induction ps arbitrary: r) auto

lemma resElement_scoreElement: "resElement (scoreElement lq e) = e"
  by (simp add: scoreElement_def Let_def nameMatch_def descriptionMatch_def scopeMatch_def
      paramMatch_resElement split: option.splits)

lemma score_scoreElement:
  assumes "query \<noteq> []"
  shows "score (scoreElement (toLowerCase query) e) = additiveScore query e"
proof -
  have q: "toLowerCase query \<noteq> []" using assms by (simp add: toLowerCase_def)
  have n: "score (nameMatch (toLowerCase query) \<lparr>resElement = e, matches = 0, score = 0, resContext = []\<rparr>)
      = (if toLowerCase (name e) = toLowerCase query then 100
         else if contains (name e) query then 50 else 0)"
    by (simp add: nameMatch_def contains_def js_includes_refl)
  have d: "\<And>r. resElement r = e \<Longrightarrow> score (descriptionMatch (toLowerCase query) r)
      = score r + (case description e of None \<Rightarrow> 0 | Some d \<Rightarrow> if contains d query then 25 else 0)"
    using q by (auto simp: descriptionMatch_def contains_def toLowerCase_def split: option.splits)
  have s: "\<And>r. resElement r = e \<Longrightarrow> score (scopeMatch (toLowerCase query) r)
      = score r + (if contains (scope e) query then 15 else 0)"
    by (simp add: scopeMatch_def contains_def)
  have r1: "resElement (nameMatch (toLowerCase query)
              \<lparr>resElement = e, matches = 0, score = 0, resContext = []\<rparr>) = e"
    by (simp add: nameMatch_def)
  have r2: "\<And>r. resElement r = e \<Longrightarrow> resElement (descriptionMatch (toLowerCase query) r) = e"
    by (simp add: descriptionMatch_def split: option.splits)
  show ?thesis
    by (cases "params e")
       (simp_all add: scoreElement_def Let_def additiveScore_def paramMatch_score n d s r1 r2
          typeBoosts_kindBoost contains_def)
qed

lemma searchLoop_elements:
  "map resElement (searchLoop lq es) = filter (\<lambda>e. 0 < score (scoreElement lq e)) es"
  by (induction es) (auto simp: resElement_scoreElement)

lemma searchLoop_set:
  "r \<in> set (searchLoop lq es) \<Longrightarrow> 0 < score r \<and> r = scoreElement lq (resElement r) \<and> resElement r \<in> set es"
  by (induction es) (auto simp: resElement_scoreElement split: if_splits)

lemma insort_cmp_insort_key:
  assumes "\<And>x y. (cmp x y \<le> 0) = (g x \<le> g y)"
  shows "insort_cmp cmp x ys = insort_key g x ys"
  by (induction ys) (simp_all add: assms)

lemma js_sort_sort_key:
  assumes "\<And>x y. (cmp x y \<le> 0) = (g x \<le> g y)"
  shows "js_sort cmp xs = sort_key g xs"
  by (induction xs) (simp_all add: js_sort_def insort_cmp_insort_key [OF assms])

lemma sort_by_score:
  "js_sort (\<lambda>a b. int (score b) - int (score a)) rs = sort_key (\<lambda>r. - int (score r)) rs"
  by (rule js_sort_sort_key) auto

lemma filter_take_subseq: "subseq (filter P (take n xs)) (filter P xs)"
proof -
  have "subseq (take n xs) xs"
    by (metis append_take_drop_id prefix_def prefix_imp_subseq)
  then show ?thesis by (rule subseq_filter)
qed

text \<open>
  Claim C2.  For every query and every element sequence, each result of \<^verbatim>\<open>performSearch\<close>
  has a positive score, its score is the additive formula of its element, and its element
  is one of the sequence; the results are in descending order of score; for every score,
  the results with that score stand in the order of the sequence; and there are at most
  20 results.
\<close>

theorem performSearch_contract:
  "(\<forall>r \<in> set (performSearch es query).
       0 < score r \<and> score r = additiveScore query (resElement r) \<and> resElement r \<in> set es)
   \<and> sorted_wrt (\<lambda>a b. score b \<le> score a) (performSearch es query)
   \<and> (\<forall>k. subseq (map resElement (filter (\<lambda>r. score r = k) (performSearch es query))) es)
   \<and> length (performSearch es query) \<le> 20"
proof (cases "trim query = []")
  case True
  then show ?thesis by (simp add: performSearch_def)
next
  case False
  then have q: "query \<noteq> []" by (auto simp: trim_def)
  define rs where "rs = searchLoop (toLowerCase query) es"
  define sorted_rs where "sorted_rs = sort_key (\<lambda>r. - int (score r)) rs"
  have ps: "performSearch es query = take 20 sorted_rs"
    using False by (simp add: performSearch_def sort_by_score rs_def sorted_rs_def)
  have members: "\<forall>r \<in> set (take 20 sorted_rs).
       0 < score r \<and> score r = additiveScore query (resElement r) \<and> resElement r \<in> set es"
  proof
    fix r assume "r \<in> set (take 20 sorted_rs)"
    then have "r \<in> set rs" by (auto simp: sorted_rs_def dest: in_set_takeD)
    then have a: "0 < score r" and b: "r = scoreElement (toLowerCase query) (resElement r)"
      and c: "resElement r \<in> set es"
      using searchLoop_set [of r "toLowerCase query" es] by (simp_all add: rs_def)
    from b have "score r = score (scoreElement (toLowerCase query) (resElement r))" by simp
    then have "score r = additiveScore query (resElement r)"
      by (simp add: score_scoreElement [OF q])
    with a c show "0 < score r \<and> score r = additiveScore query (resElement r) \<and> resElement r \<in> set es"
      by simp
  qed
  have "sorted (map (\<lambda>r. - int (score r)) sorted_rs)"
    by (simp add: sorted_rs_def)
  then have "sorted_wrt (\<lambda>a b. score b \<le> score a) sorted_rs"
    by (simp add: sorted_map sorted_wrt_iff_nth_less)
  then have order: "sorted_wrt (\<lambda>a b. score b \<le> score a) (take 20 sorted_rs)"
    by (rule sorted_wrt_take)
  have ties: "\<forall>k. subseq (map resElement (filter (\<lambda>r. score r = k) (take 20 sorted_rs))) es"
  proof
    fix k
    have "filter (\<lambda>r. - int (score r) = - int k) sorted_rs = filter (\<lambda>r. - int (score r) = - int k) rs"
      unfolding sorted_rs_def by (rule sort_key_stable)
    then have st: "filter (\<lambda>r. score r = k) sorted_rs = filter (\<lambda>r. score r = k) rs" by simp
    have "subseq (filter (\<lambda>r. score r = k) (take 20 sorted_rs)) (filter (\<lambda>r. score r = k) sorted_rs)"
      by (rule filter_take_subseq)
    then have "subseq (filter (\<lambda>r. score r = k) (take 20 sorted_rs)) rs"
      using st subseq_filter_left subseq_order.order_trans by metis
    then have "subseq (map resElement (filter (\<lambda>r. score r = k) (take 20 sorted_rs))) (map resElement rs)"
      by (rule subseq_map)
    moreover have "subseq (map resElement rs) es"
      by (simp add: rs_def searchLoop_elements)
    ultimately show "subseq (map resElement (filter (\<lambda>r. score r = k) (take 20 sorted_rs))) es"
      by (rule subseq_order.order_trans)
  qed
  have size: "length (take 20 sorted_rs) \<le> 20" by simp
  from members order ties size show ?thesis unfolding ps by blast
qed

text \<open>
  An instance: the query \<^verbatim>\<open>add\<close> finds the function \<^verbatim>\<open>add\<close> (name equal: 100, kind: 20)
  before the variable in its scope (scope: 15, kind: 10), and not the comment.
\<close>

lemma search_run:
  "performSearch searchElements ''add'' =
     [\<lparr>resElement = searchElements ! 0, matches = 1, score = 120, resContext = ''add''\<rparr>,
      \<lparr>resElement = searchElements ! 1, matches = 1, score = 25, resContext = ''In add''\<rparr>]"
  by code_simp

theorem performSearch_contract_witness:
  "performSearch searchElements ''add'' =
     [\<lparr>resElement = searchElements ! 0, matches = 1, score = 120, resContext = ''add''\<rparr>,
      \<lparr>resElement = searchElements ! 1, matches = 1, score = 25, resContext = ''In add''\<rparr>]
   \<and> additiveScore ''add'' (searchElements ! 0) = 120
   \<and> additiveScore ''add'' (searchElements ! 1) = 25
   \<and> length (performSearch searchElements ''add'') \<le> 20"
  using search_run performSearch_contract [of searchElements "''add''"] by simp

subsection \<open>Filtering and sorting\<close>

text \<open>
  Claim C4.  With no kind filter and no query, \<^verbatim>\<open>filtered\<close> is the array it was given, and
  \<^verbatim>\<open>filtered.sort\<close> sorts that array in place: for the elements of lines 1 and 2 and the
  sort by line in descending order, the array the caller passed holds them in the order
  2, 1 after the call.
\<close>

theorem filterAndSortElements_reorders_input:
  "readArray store2 0 = [elemA, elemB]
   \<and> fst (filterAndSortElements lc settingsDesc [] 0 store2) = 0
   \<and> readArray (snd (filterAndSortElements lc settingsDesc [] 0 store2)) 0 = [elemB, elemA]"
  by (simp add: filterAndSortElements_def settingsDesc_def store2_def readArray_def arraySort_def
      js_sort_def compareElements_def elemA_def elemB_def)

text \<open>
  The other path: with a kind filter or a query, \<^verbatim>\<open>filter\<close> has made a new array before
  the sort, and the array the caller passed is as it was.
\<close>

theorem filterAndSortElements_frame:
  assumes "filterTypes settings \<noteq> [] \<or> searchQuery \<noteq> []" and "elems < fresh h"
  shows "readArray (snd (filterAndSortElements lc settings searchQuery elems h)) elems
       = readArray h elems"
  using assms
  by (auto simp: filterAndSortElements_def arrayFilter_def newArray_def arraySort_def
      readArray_def Let_def split: prod.splits)

theorem filterAndSortElements_frame_witness:
  "filterTypes settingsFiltered \<noteq> []
   \<and> 0 < fresh store2
   \<and> readArray (snd (filterAndSortElements (\<lambda>a b. 0) settingsFiltered [] 0 store2)) 0
       = [elemA, elemB]
   \<and> fst (filterAndSortElements (\<lambda>a b. 0) settingsFiltered [] 0 store2) = 1
   \<and> readArray (snd (filterAndSortElements (\<lambda>a b. 0) settingsFiltered [] 0 store2)) 1
       = [elemB, elemA]"
proof -
  have a: "filterTypes settingsFiltered \<noteq> [] \<or> ([] :: string) \<noteq> []"
    by (simp add: settingsFiltered_def)
  have b: "0 < fresh store2" by (simp add: store2_def)
  from filterAndSortElements_frame [OF a b, of "\<lambda>a b. 0"]
  show ?thesis
    by (simp add: filterAndSortElements_def settingsFiltered_def settingsDesc_def store2_def
        readArray_def arrayFilter_def newArray_def arraySort_def js_sort_def compareElements_def
        elemA_def elemB_def)
qed

section \<open>History: theorems\<close>

text \<open>
  The initial state is well formed, and \<^verbatim>\<open>navigateToElement\<close> keeps a state well formed
  when the closure that runs it is the one of the current state.
\<close>

lemma history_ok_initial: "history_ok initialHistory"
  by (simp add: history_ok_def initialHistory_def)

theorem history_ok_navigateToElement:
  "history_ok s \<Longrightarrow> history_ok (navigateToElement e a now s s)"
  by (auto simp: history_ok_def navigateToElement_def js_slice0_def split: if_splits)

theorem history_ok_navigateToElement_witness:
  "history_ok initialHistory
   \<and> history_ok clicked1
   \<and> currentHistoryIndex clicked1 = 0
   \<and> length (navigationHistory clicked1) = 1"
  using history_ok_initial history_ok_navigateToElement [OF history_ok_initial, of elemA Navigate 10]
  by (simp add: clicked1_def navigateToElement_def initialHistory_def js_slice0_def)

text \<open>
  Claim C6.  The claim fails at states the component reaches.  After a click on an element
  and two presses of Enter the history has two entries and the cursor is 2, past the last
  index: the second Enter cut the history with the index of an older render and advanced
  the current one.  There \<^verbatim>\<open>navigateHistory('forward')\<close> moves the cursor from 2 down to 1.
  After a third Enter the cursor is 3 on the same two entries, and there
  \<^verbatim>\<open>navigateHistory('back')\<close> changes nothing although the cursor is not at a boundary.
\<close>

theorem navigateHistory_overrun:
  "length (navigationHistory entered2) = 2
   \<and> currentHistoryIndex entered2 = 2
   \<and> currentHistoryIndex (navigateHistory Forward entered2 entered2) = 1
   \<and> length (navigationHistory entered3) = 2
   \<and> currentHistoryIndex entered3 = 3
   \<and> navigateHistory Back entered3 entered3 = entered3"
  by (simp add: entered3_def entered2_def entered1_def clicked1_def navigateHistory_def
      navigateToElement_def initialHistory_def js_index_def js_slice0_def)

text \<open>
  On the well-formed states, and called from the latest render, \<^verbatim>\<open>navigateHistory\<close> does
  what the claim says: it never changes the history sequence and keeps the cursor a valid
  index; \<^verbatim>\<open>'back'\<close> from a cursor above 0 moves it down by one and selects that entry's
  element, and at cursor 0 (or on the empty history) it changes nothing; \<^verbatim>\<open>'forward'\<close>
  below the last index moves the cursor up by one and selects that entry's element, and at
  the last index it changes nothing.  The function has no failing path: an index outside
  the array reads \<^verbatim>\<open>undefined\<close>, which the guard treats as "no move".
\<close>

theorem navigateHistory_one_step:
  assumes "history_ok s"
  shows "navigationHistory (navigateHistory d s s) = navigationHistory s
       \<and> history_ok (navigateHistory d s s)
       \<and> (d = Back \<and> 0 < currentHistoryIndex s \<longrightarrow>
            currentHistoryIndex (navigateHistory d s s) = currentHistoryIndex s - 1
          \<and> selectedElement (navigateHistory d s s)
              = Some (element (navigationHistory s ! nat (currentHistoryIndex s - 1))))
       \<and> (d = Back \<and> currentHistoryIndex s \<le> 0 \<longrightarrow> navigateHistory d s s = s)
       \<and> (d = Forward \<and> currentHistoryIndex s < int (length (navigationHistory s)) - 1 \<longrightarrow>
            currentHistoryIndex (navigateHistory d s s) = currentHistoryIndex s + 1
          \<and> selectedElement (navigateHistory d s s)
              = Some (element (navigationHistory s ! nat (currentHistoryIndex s + 1))))
       \<and> (d = Forward \<and> int (length (navigationHistory s)) - 1 \<le> currentHistoryIndex s \<longrightarrow>
            navigateHistory d s s = s)"
proof (cases d)
  case Back
  show ?thesis
  proof (cases "0 < currentHistoryIndex s")
    case True
    with assms Back show ?thesis
      by (auto simp: navigateHistory_def js_index_def history_ok_def Let_def split: if_splits)
  next
    case False
    with assms Back show ?thesis
      by (auto simp: navigateHistory_def js_index_def history_ok_def Let_def split: if_splits)
  qed
next
  case Forward
  show ?thesis
  proof (cases "currentHistoryIndex s < int (length (navigationHistory s)) - 1")
    case True
    with assms Forward show ?thesis
      by (auto simp: navigateHistory_def js_index_def history_ok_def Let_def split: if_splits)
  next
    case False
    with assms Forward show ?thesis
      by (auto simp: navigateHistory_def js_index_def history_ok_def Let_def split: if_splits)
  qed
qed

text \<open>
  An instance: after two clicks and a click on the back button the cursor is 0; going
  back again changes nothing, and going forward moves the cursor to 1 and selects the
  second element.
\<close>

theorem navigateHistory_one_step_witness:
  "history_ok history2
   \<and> currentHistoryIndex history2 = 0
   \<and> length (navigationHistory history2) = 2
   \<and> navigateHistory Back history2 history2 = history2
   \<and> currentHistoryIndex (navigateHistory Forward history2 history2) = 1
   \<and> selectedElement (navigateHistory Forward history2 history2) = Some elemB"
proof -
  have ok: "history_ok history2"
    by (simp add: history2_def clicked2_def clicked1_def history_ok_def navigateHistory_def
        navigateToElement_def initialHistory_def js_index_def js_slice0_def)
  have idx: "currentHistoryIndex history2 = 0"
    by (simp add: history2_def clicked2_def clicked1_def navigateHistory_def navigateToElement_def
        initialHistory_def js_index_def js_slice0_def)
  have hist: "navigationHistory history2
      = [\<lparr>element = elemA, timestamp = 10, action = Navigate\<rparr>,
         \<lparr>element = elemB, timestamp = 20, action = Navigate\<rparr>]"
    by (simp add: history2_def clicked2_def clicked1_def navigateHistory_def navigateToElement_def
        initialHistory_def js_index_def js_slice0_def)
  from navigateHistory_one_step [OF ok, of Back] navigateHistory_one_step [OF ok, of Forward]
  show ?thesis using ok idx hist by simp
qed

section \<open>The audio cue mapper: theorems\<close>

lemma keyword_entry: "map_of audioMappings ''keyword'' = Some keywordDescriptor"
  by (simp add: audioMappings_def keywordDescriptor_def)

text \<open>
  Claim C8.  For every element type that is no member name of \<^verbatim>\<open>Object.prototype\<close>
  (every element kind is such a type), the lookup yields the entry of the type where the
  table has one and the \<^verbatim>\<open>keyword\<close> entry where it has none.  \<^verbatim>\<open>playAudioForElement\<close>
  never changes the table, and when it plays, the note it triggers has the frequency of
  the descriptor and the duration (the caller's, if given and not 0, else the
  descriptor's) times the playback speed.
\<close>

theorem cueFor_lookup:
  assumes "elementType \<notin> set objectPrototypeNames"
  shows "(\<forall>d. map_of audioMappings elementType = Some d \<longrightarrow>
            cueFor audioMappings elementType = Descriptor d)
       \<and> (map_of audioMappings elementType = None \<longrightarrow>
            cueFor audioMappings elementType = Descriptor keywordDescriptor)
       \<and> table (playAudioForElement audioEnabled playbackSpeed spatialAudio started random
                  elementType dur s) = table s
       \<and> (\<forall>synth mapping. audioEnabled \<and> started \<and> synthRef s = Some synth
              \<and> cueFor (table s) elementType = Descriptor mapping \<longrightarrow>
            (\<exists>synth'. synthRef (playAudioForElement audioEnabled playbackSpeed spatialAudio
                                   started random elementType dur s) = Some synth'
               \<and> triggered synth'
                   = triggered synth
                     @ [(frequency mapping,
                         (case dur of None \<Rightarrow> duration mapping
                          | Some d \<Rightarrow> if d = 0 then duration mapping else d) * playbackSpeed)]))"
proof -
  have a: "\<forall>d. map_of audioMappings elementType = Some d \<longrightarrow>
            cueFor audioMappings elementType = Descriptor d"
    by (simp add: cueFor_def)
  have b: "map_of audioMappings elementType = None \<longrightarrow>
            cueFor audioMappings elementType = Descriptor keywordDescriptor"
    using assms by (simp add: cueFor_def keyword_entry)
  have c: "table (playAudioForElement audioEnabled playbackSpeed spatialAudio started random
                  elementType dur s) = table s"
    by (simp add: playAudioForElement_def Let_def split: option.splits cue.splits)
  have d: "\<forall>synth mapping. audioEnabled \<and> started \<and> synthRef s = Some synth
              \<and> cueFor (table s) elementType = Descriptor mapping \<longrightarrow>
            (\<exists>synth'. synthRef (playAudioForElement audioEnabled playbackSpeed spatialAudio
                                   started random elementType dur s) = Some synth'
               \<and> triggered synth'
                   = triggered synth
                     @ [(frequency mapping,
                         (case dur of None \<Rightarrow> duration mapping
                          | Some d \<Rightarrow> if d = 0 then duration mapping else d) * playbackSpeed)])"
    by (auto simp: playAudioForElement_def Let_def split: option.splits)
  from a b c d show ?thesis by blast
qed

theorem cueFor_lookup_witness:
  "''import'' \<notin> set objectPrototypeNames
   \<and> map_of audioMappings ''import'' = None
   \<and> cueFor audioMappings ''import'' = Descriptor keywordDescriptor
   \<and> ''function'' \<notin> set objectPrototypeNames
   \<and> cueFor audioMappings ''function'' = Descriptor functionDescriptor
   \<and> table (playAudioForElement True 2 False True 0 ''function'' None audio0) = audioMappings
   \<and> map_option triggered (synthRef (playAudioForElement True 2 False True 0 ''function'' None audio0))
       = Some [(440, 1)]"
proof -
  have i: "''import'' \<notin> set objectPrototypeNames" and f: "''function'' \<notin> set objectPrototypeNames"
    by (simp_all add: objectPrototypeNames_def)
  have n: "map_of audioMappings ''import'' = None"
    by (simp add: audioMappings_def)
  have d: "map_of audioMappings ''function'' = Some functionDescriptor"
    by (simp add: audioMappings_def functionDescriptor_def)
  have t: "table audio0 = audioMappings" and sy: "synthRef audio0 = Some synth0"
    by (simp_all add: audio0_def)
  from cueFor_lookup [OF i, of True 2 False True 0 None audio0]
       cueFor_lookup [OF f, of True 2 False True 0 None audio0]
  show ?thesis
    using i f n d t sy by (auto simp: functionDescriptor_def synth0_def)
qed

section \<open>The Braille engine: theorems\<close>

lemma convertChars_contraction:
  assumes "contractionsEnabled st" and "grade st = Grade2"
    and "findLongestContraction lc cu (c # cs) = Some m"
  shows "snd (convertChars lc st cu (c # cs) ctx)
       = braille m @ snd (convertChars lc st cu (drop (len m) (c # cs)) (updateContext ctx c))"
  using assms by (simp add: Let_def)

lemma convertChars_regular:
  assumes "contractionsEnabled st \<and> grade st = Grade2 \<longrightarrow> findLongestContraction lc cu (c # cs) = None"
    and "computerBraille st \<longrightarrow> handleProgrammingSymbol (c # cs) (updateContext ctx c) = None"
    and "\<not> isDigitUnit c"
  shows "snd (convertChars lc st cu (c # cs) ctx)
       = regularGlyph lc c
         @ snd (convertChars lc st cu cs
                  ((updateContext ctx c)\<lparr>ctxColumn := ctxColumn (updateContext ctx c) + 1\<rparr>))"
  using assms by (auto simp: Let_def)

lemmas contraction_eval =
  findLongestContraction_def contractionEntries_def programmingContractions_def units_def
  toLowerCaseUnits_def lowerUnit_def code_def js_index_def isWordUnit_def

lemmas symbol_eval = handleProgrammingSymbol_def operatorGlyphs_def units_def code_def

lemmas glyph_eval =
  regularGlyph_def glyphOf_def brailleMappings_def units_def toLowerCaseUnits_def lowerUnit_def
  code_def

lemma no_contraction_form:
  "findLongestContraction lc [] (units ''form'') = None"
  "findLongestContraction lc [] (units ''orm'') = None"
  "findLongestContraction lc [] (units ''rm'') = None"
  "findLongestContraction lc [] (units ''m'') = None"
  "findLongestContraction lc [] (units '' '') = None"
  by (simp_all add: contraction_eval)

lemma contraction_for:
  "findLongestContraction lc [] (units ''for '') = Some \<lparr>braille = [0x280B, 0x2817], len = 3\<rparr>"
  by (simp add: contraction_eval)

lemma no_symbol_form:
  "handleProgrammingSymbol (units ''form'') ctx = None"
  "handleProgrammingSymbol (units ''orm'') ctx = None"
  "handleProgrammingSymbol (units ''rm'') ctx = None"
  "handleProgrammingSymbol (units ''m'') ctx = None"
  "handleProgrammingSymbol (units '' '') ctx = None"
  by (simp_all add: symbol_eval)

lemma glyphs_form:
  "regularGlyph lc (code (CHR ''f'')) = [0x280B]" "regularGlyph lc (code (CHR ''o'')) = [0x2815]"
  "regularGlyph lc (code (CHR ''r'')) = [0x2817]" "regularGlyph lc (code (CHR ''m'')) = [0x280D]"
  "regularGlyph lc (code (CHR '' '')) = [0x20]"
  by (simp_all add: glyph_eval)

lemma units_Cons: "units (c # cs) = code c # units cs"
  by (simp add: units_def)

lemma units_Nil: "units [] = []"
  by (simp add: units_def)

lemma chars_form:
  assumes "contractionsEnabled st" and "grade st = Grade2"
  shows "snd (convertChars lc st [] (units ''form'') ctx) = [0x280B, 0x2815, 0x2817, 0x280D]"
  using no_contraction_form [of lc] no_symbol_form glyphs_form [of lc]
  by (simp add: units_Cons units_Nil convertChars_regular isDigitUnit_def code_def
      del: convertChars.simps(2))

lemma chars_for:
  assumes "contractionsEnabled st" and "grade st = Grade2"
  shows "snd (convertChars lc st [] (units ''for '') ctx) = [0x280B, 0x2817, 0x20]"
  using assms convertChars_contraction [OF assms contraction_for [unfolded units_Cons units_Nil], of lc ctx]
    no_contraction_form [of lc] no_symbol_form glyphs_form [of lc]
  by (simp add: units_Cons units_Nil convertChars_regular isDigitUnit_def code_def
      del: convertChars.simps(2))

lemma js_split_one: "c \<notin> set lin \<Longrightarrow> js_split c lin = [lin]"
  by (induction lin) auto

lemma one_line:
  "lin \<noteq> [] \<Longrightarrow> 0x0A \<notin> set lin \<Longrightarrow>
   convertToBraille lc st cu lin
     = linePrefix st 0 (length (takeWhile isWhiteSpaceUnit lin) div 2)
       @ snd (convertChars lc st cu lin
               (initialContext\<lparr>ctxLine := 1, ctxColumn := 1,
                   indentLevel := length (takeWhile isWhiteSpaceUnit lin) div 2\<rparr>))"
  by (simp add: convertToBraille_def convertLine_def Let_def js_split_one)

text \<open>
  Claim C3.  With contractions enabled in grade 2 (and no custom contraction, as in the
  component), the lookup at \<^verbatim>\<open>form\<close> finds no contraction and the word is converted
  character by character; the lookup at \<^verbatim>\<open>for \<close> finds the contraction of \<^verbatim>\<open>for\<close>, and the
  text is converted to that contraction followed by the space.
\<close>

theorem for_contraction_boundary:
  assumes "contractionsEnabled st" and "grade st = Grade2"
  shows "findLongestContraction lc [] (units ''form'') = None
       \<and> convertToBraille lc st [] (units ''form'')
           = linePrefix st 0 0 @ concat (map (regularGlyph lc) (units ''form''))
       \<and> concat (map (regularGlyph lc) (units ''form'')) = [0x280B, 0x2815, 0x2817, 0x280D]
       \<and> findLongestContraction lc [] (units ''for '')
           = Some \<lparr>braille = [0x280B, 0x2817], len = 3\<rparr>
       \<and> convertToBraille lc st [] (units ''for '')
           = linePrefix st 0 0 @ [0x280B, 0x2817] @ regularGlyph lc (code (CHR '' ''))"
proof -
  have w: "takeWhile isWhiteSpaceUnit (units ''form'') = []"
    "takeWhile isWhiteSpaceUnit (units ''for '') = []"
    by (simp_all add: units_def code_def isWhiteSpaceUnit_def)
  have n: "units ''form'' \<noteq> []" "0x0A \<notin> set (units ''form'')"
    "units ''for '' \<noteq> []" "0x0A \<notin> set (units ''for '')"
    by (simp_all add: units_def code_def)
  have "convertToBraille lc st [] (units ''form'')
      = linePrefix st 0 0 @ [0x280B, 0x2815, 0x2817, 0x280D]"
    by (simp add: one_line [OF n(1,2)] w chars_form [OF assms] del: convertChars.simps)
  moreover have "convertToBraille lc st [] (units ''for '')
      = linePrefix st 0 0 @ [0x280B, 0x2817, 0x20]"
    by (simp add: one_line [OF n(3,4)] w chars_for [OF assms] del: convertChars.simps)
  moreover have "concat (map (regularGlyph lc) (units ''form'')) = [0x280B, 0x2815, 0x2817, 0x280D]"
    using glyphs_form [of lc] by (simp add: units_Cons units_Nil)
  ultimately show ?thesis
    using glyphs_form [of lc] by (simp add: no_contraction_form contraction_for)
qed

lemma prefix_default:
  "linePrefix defaultSettings 0 0 = [0x281A, 0x281A, 0x2801, 0x2812, 0x20]"
  "linePrefix defaultSettings (Suc 0) 0 = [0x281A, 0x281A, 0x2803, 0x2812, 0x20]"
proof -
  have "toString (Suc 0) = ''1''" "toString (Suc (Suc 0)) = ''2''"
    by (simp_all add: toString.simps [of "Suc 0"] toString.simps [of "Suc (Suc 0)"] digitChar_def)
  then have "convertNumbersToBraille (units (padStart3 (toString (Suc 0)))) = [0x281A, 0x281A, 0x2801]"
    "convertNumbersToBraille (units (padStart3 (toString (Suc (Suc 0))))) = [0x281A, 0x281A, 0x2803]"
    by (simp_all add: padStart3_def numeral_2_eq_2 convertNumbersToBraille_def glyphOf_def
        brailleMappings_def units_def code_def)
  then show "linePrefix defaultSettings 0 0 = [0x281A, 0x281A, 0x2801, 0x2812, 0x20]"
    "linePrefix defaultSettings (Suc 0) 0 = [0x281A, 0x281A, 0x2803, 0x2812, 0x20]"
    by (simp_all add: linePrefix_def defaultSettings_def)
qed

theorem for_contraction_boundary_witness:
  "contractionsEnabled defaultSettings \<and> grade defaultSettings = Grade2
   \<and> convertToBraille (\<lambda>s. s) defaultSettings [] (units ''form'')
       = [0x281A, 0x281A, 0x2801, 0x2812, 0x20, 0x280B, 0x2815, 0x2817, 0x280D]
   \<and> convertToBraille (\<lambda>s. s) defaultSettings [] (units ''for '')
       = [0x281A, 0x281A, 0x2801, 0x2812, 0x20, 0x280B, 0x2817, 0x20]"
proof -
  have a: "contractionsEnabled defaultSettings" and b: "grade defaultSettings = Grade2"
    by (simp_all add: defaultSettings_def)
  from for_contraction_boundary [OF a b, of "\<lambda>s. s"] show ?thesis
    using a b prefix_default(1) glyphs_form [of "\<lambda>s. s"] by simp
qed

subsection \<open>Every text is converted\<close>






































subsection \<open>Rounding\<close>

text \<open>
  The binade of a number, the error of one rounding (at most one part in \<open>2 ^ 53\<close>), and
  the integers below \<open>2 ^ 53\<close>, which are doubles.
\<close>

lemma exponent_iff:
  "x \<noteq> 0 \<Longrightarrow> (exponent x = e) = (2 powi e \<le> \<bar>x\<bar> \<and> \<bar>x\<bar> < 2 powi (e + 1))"
proof -
  assume "x \<noteq> 0"
  then have pos: "0 < \<bar>x\<bar>" by simp
  have a: "(2::real) powr real_of_int e = 2 powi e"
    by (rule powr_real_of_int') simp_all
  have b: "(2::real) powr real_of_int (e + 1) = 2 powi (e + 1)"
    by (rule powr_real_of_int') simp_all
  have two: "1 < (2::real)" by simp
  show ?thesis
    unfolding exponent_def floor_log_eq_powr_iff [OF pos two] a b ..
qed

lemma exponent_bounds:
  "x \<noteq> 0 \<Longrightarrow> 2 powi exponent x \<le> \<bar>x\<bar> \<and> \<bar>x\<bar> < 2 powi (exponent x + 1)"
  using exponent_iff [of x "exponent x"] by simp

lemma roundTiesToEven_near: "\<bar>real_of_int (roundTiesToEven y) - y\<bar> \<le> 1 / 2"
  unfolding roundTiesToEven_def by (auto simp: abs_if) linarith+

lemma roundTiesToEven_of_int: "roundTiesToEven (of_int m) = m"
  by (simp add: roundTiesToEven_def)

lemma fl_at:
  assumes "2 powi e \<le> \<bar>x\<bar>" and "\<bar>x\<bar> < 2 powi (e + 1)"
  shows "fl x = of_int (roundTiesToEven (x / 2 powi (e - 52))) * 2 powi (e - 52)"
proof -
  have nz: "x \<noteq> 0"
  proof
    assume "x = 0"
    with assms(1) have "2 powi e \<le> (0::real)" by simp
    moreover have "0 < (2::real) powi e" by (rule zero_less_power_int) simp
    ultimately show False by linarith
  qed
  with assms have "exponent x = e" by (simp add: exponent_iff)
  with nz show ?thesis by (simp add: fl_def)
qed

lemma fl_near: "\<bar>fl x - x\<bar> \<le> \<bar>x\<bar> / 2 ^ 53"
proof (cases "x = 0")
  case True
  then show ?thesis by (simp add: fl_def)
next
  case False
  define e where "e = exponent x"
  define q :: real where "q = 2 powi (e - 52)"
  have q: "0 < q" by (simp add: q_def zero_less_power_int)
  have qe: "q = 2 powi e / 2 ^ 52" by (simp add: q_def power_int_diff)
  from exponent_bounds [OF False] have "2 powi e \<le> \<bar>x\<bar>" by (simp add: e_def)
  then have qx: "q \<le> \<bar>x\<bar> / 2 ^ 52" by (simp add: qe divide_right_mono)
  have "fl x - x = (of_int (roundTiesToEven (x / q)) - x / q) * q"
    using False q by (simp add: fl_def e_def q_def algebra_simps)
  then have "\<bar>fl x - x\<bar> = \<bar>of_int (roundTiesToEven (x / q)) - x / q\<bar> * q"
    using q by (simp add: abs_mult)
  also have "\<dots> \<le> 1 / 2 * q"
    using roundTiesToEven_near [of "x / q"] q by (intro mult_right_mono) simp_all
  also have "\<dots> \<le> 1 / 2 * (\<bar>x\<bar> / 2 ^ 52)" using qx by simp
  also have "\<dots> = \<bar>x\<bar> / 2 ^ 53" by simp
  finally show ?thesis .
qed

lemma fl_nonneg: "0 \<le> x \<Longrightarrow> 0 \<le> fl x"
proof -
  assume x: "0 \<le> x"
  have "x / 2 ^ 53 \<le> x" using x by (simp add: divide_le_eq)
  with fl_near [of x] x show ?thesis by (simp add: abs_if split: if_splits)
qed

lemma fl_of_int:
  assumes "\<bar>n\<bar> < 2 ^ 53"
  shows "fl (of_int n) = of_int n"
proof (cases "n = 0")
  case True
  then show ?thesis by (simp add: fl_def)
next
  case False
  define x :: real where "x = of_int n"
  define e where "e = exponent x"
  have nz: "x \<noteq> 0" using False by (simp add: x_def)
  from exponent_bounds [OF nz] have lo: "2 powi e \<le> \<bar>x\<bar>" and hi: "\<bar>x\<bar> < 2 powi (e + 1)"
    by (simp_all add: e_def)
  have "\<bar>x\<bar> < 2 powi 53" using assms unfolding x_def
    by (metis of_int_abs of_int_less_numeral_power_cancel_iff power_int_numeral)
  with lo have "(2::real) powi e < 2 powi 53" by linarith
  with power_int_le_imp_less_exp [of "2::real" e 53] have "e < 53" by simp
  then have e52: "e \<le> 52" by simp
  have "1 \<le> \<bar>x\<bar>" using False by (simp add: x_def)
  with hi have one: "1 < (2::real) powi (e + 1)" by linarith
  have e0: "0 \<le> e"
  proof (rule ccontr)
    assume "\<not> 0 \<le> e"
    then have "e + 1 \<le> 0" by simp
    then have "(2::real) powi (e + 1) \<le> 2 powi 0" by (rule power_int_increasing) simp
    with one show False by simp
  qed
  define k where "k = nat (52 - e)"
  have "(2::real) powi (e - 52) = 1 / 2 ^ k"
    using e52 by (simp add: k_def power_int_def field_simps)
  then have quot: "x / 2 powi (e - 52) = of_int (n * 2 ^ k)" and prod: "of_int (n * 2 ^ k) * 2 powi (e - 52) = x"
    by (simp_all add: x_def)
  have "fl x = of_int (roundTiesToEven (x / 2 powi (e - 52))) * 2 powi (e - 52)"
    using nz by (simp add: fl_def e_def)
  also have "\<dots> = x" unfolding quot roundTiesToEven_of_int by (rule prod)
  finally show ?thesis by (simp add: x_def)
qed

lemma fl_numeral: "numeral n < (2::int) ^ 53 \<Longrightarrow> fl (numeral n) = numeral n"
  using fl_of_int [of "numeral n"] by simp

lemma fl_neg_numeral: "numeral n < (2::int) ^ 53 \<Longrightarrow> fl (- numeral n) = - numeral n"
  using fl_of_int [of "- numeral n"] by simp

lemma fl_0: "fl 0 = 0"
  by (simp add: fl_def)

lemma fl_1: "fl 1 = 1"
  using fl_of_int [of 1] by simp

lemma Math_round_near: "\<bar>Math_round x - x\<bar> \<le> 1 / 2"
  unfolding Math_round_def by linarith

lemma Math_round_nonneg: "0 \<le> x \<Longrightarrow> 0 \<le> Math_round x"
  by (simp add: Math_round_def)

lemma fl_between:
  assumes "0 \<le> lo" and "lo \<le> x" and "x \<le> hi"
  shows "lo * (1 - 1 / 2 ^ 53) \<le> fl x" and "fl x \<le> hi * (1 + 1 / 2 ^ 53)"
proof -
  have x: "0 \<le> x" using assms by simp
  from fl_near [of x] x have "\<bar>fl x - x\<bar> \<le> x / 2 ^ 53"
    by (simp only: abs_of_nonneg)
  then have "x - x / 2 ^ 53 \<le> fl x" and "fl x \<le> x + x / 2 ^ 53"
    by linarith+
  then have a: "x * (1 - 1 / 2 ^ 53) \<le> fl x" and b: "fl x \<le> x * (1 + 1 / 2 ^ 53)"
    by (simp_all add: algebra_simps)
  have "lo * (1 - 1 / 2 ^ 53) \<le> x * (1 - 1 / 2 ^ 53)"
    using assms(2) by (rule mult_right_mono) simp
  with a show "lo * (1 - 1 / 2 ^ 53) \<le> fl x" by linarith
  have "x * (1 + 1 / 2 ^ 53) \<le> hi * (1 + 1 / 2 ^ 53)"
    using assms(3) by (rule mult_right_mono) simp
  with b show "fl x \<le> hi * (1 + 1 / 2 ^ 53)" by linarith
qed

text \<open>Four roundings in a row change a number by less than one part in \<open>2 ^ 50\<close>.\<close>

lemma four_roundings:
  "(1 + 1 / 2 ^ 53) ^ 4 \<le> (1 + 1 / 2 ^ 50 :: real)"
  "(1 - 1 / 2 ^ 50 :: real) \<le> (1 - 1 / 2 ^ 53) ^ 4"
  by (simp_all add: power_divide)

lemma percent_near:
  assumes x: "0 \<le> x"
  shows "\<bar>fl (Math_round (fl (fl (fl x * 100) * 100)) / 100) - 100 * x\<bar>
         \<le> 1 / 200 + (100 * x + 1) / 2 ^ 50"
proof -
  define c :: real where "c = 1 + 1 / 2 ^ 53"
  define d :: real where "d = 1 - 1 / 2 ^ 53"
  define r1 where "r1 = fl x"
  define r2 where "r2 = fl (r1 * 100)"
  define r3 where "r3 = fl (r2 * 100)"
  define k where "k = Math_round r3"
  define res where "res = fl (k / 100)"
  define e :: real where "e = 1 / 2 ^ 50"
  have conv: "100 * x * e + e = (100 * x + 1) / 2 ^ 50"
    by (simp add: e_def add_divide_distrib)
  have c: "0 \<le> c" and d: "0 \<le> d" by (simp_all add: c_def d_def)
  have c4: "c ^ 4 \<le> 1 + e" and d4: "1 - e \<le> d ^ 4"
    unfolding c_def d_def e_def by (rule four_roundings)+
  from fl_between [of x x x] x have b1: "x * d \<le> r1" "r1 \<le> x * c"
    by (simp_all add: r1_def c_def d_def)
  have "0 \<le> x * d * 100" using x d by simp
  from fl_between [OF this, of "r1 * 100" "x * c * 100"] b1
  have b2: "x * d * 100 * d \<le> r2" "r2 \<le> x * c * 100 * c"
    by (simp_all add: r2_def c_def d_def)
  have "0 \<le> x * d * 100 * d * 100" using x d by simp
  from fl_between [OF this, of "r2 * 100" "x * c * 100 * c * 100"] b2
  have b3: "x * d * 100 * d * 100 * d \<le> r3" "r3 \<le> x * c * 100 * c * 100 * c"
    by (simp_all add: r3_def c_def d_def)
  have "0 \<le> x * d * 100 * d * 100 * d" using x d by simp
  with b3 have r3: "0 \<le> r3" by linarith
  then have k0: "0 \<le> k" by (simp add: k_def Math_round_nonneg)
  have kn: "r3 - 1 / 2 \<le> k" "k \<le> r3 + 1 / 2"
    using Math_round_near [of r3] unfolding k_def by linarith+
  have "0 \<le> k / 100" using k0 by simp
  from fl_between [OF this, of "k / 100" "k / 100"]
  have b4: "k / 100 * d \<le> res" "res \<le> k / 100 * c"
    by (simp_all add: res_def c_def d_def)
  have "k / 100 \<le> (x * c * 100 * c * 100 * c + 1 / 2) / 100"
    using kn(2) b3(2) by simp
  then have "k / 100 * c \<le> (x * c * 100 * c * 100 * c + 1 / 2) / 100 * c"
    using c by (rule mult_right_mono)
  also have "\<dots> = 100 * x * c ^ 4 + c / 200"
    by (simp add: power4_eq_xxxx field_simps)
  finally have up1: "res \<le> 100 * x * c ^ 4 + c / 200" using b4(2) by linarith
  have "100 * x * c ^ 4 \<le> 100 * x * (1 + e)"
    using c4 x by (intro mult_left_mono) simp_all
  moreover have "100 * x * (1 + e) = 100 * x + 100 * x * e"
    by (simp add: algebra_simps)
  moreover have "c / 200 \<le> 1 / 200 + e" by (simp add: c_def e_def)
  ultimately have up: "res \<le> 100 * x + 1 / 200 + (100 * x * e + e)"
    using up1 by linarith
  have "(x * d * 100 * d * 100 * d - 1 / 2) / 100 \<le> k / 100"
    using kn(1) b3(1) by simp
  then have "(x * d * 100 * d * 100 * d - 1 / 2) / 100 * d \<le> k / 100 * d"
    using d by (rule mult_right_mono)
  moreover have "(x * d * 100 * d * 100 * d - 1 / 2) / 100 * d = 100 * x * d ^ 4 - d / 200"
    by (simp add: power4_eq_xxxx field_simps)
  ultimately have lo1: "100 * x * d ^ 4 - d / 200 \<le> res" using b4(1) by linarith
  have "100 * x * (1 - e) \<le> 100 * x * d ^ 4"
    using d4 x by (intro mult_left_mono) simp_all
  moreover have "100 * x * (1 - e) = 100 * x - 100 * x * e"
    by (simp add: algebra_simps)
  moreover have "d / 200 \<le> 1 / 200" by (simp add: d_def)
  moreover have "0 \<le> e" by (simp add: e_def)
  ultimately have lo: "100 * x - 1 / 200 - (100 * x * e + e) \<le> res"
    using lo1 by linarith
  from up lo have "\<bar>res - 100 * x\<bar> \<le> 1 / 200 + (100 * x * e + e)"
    by linarith
  then have "\<bar>res - 100 * x\<bar> \<le> 1 / 200 + (100 * x + 1) / 2 ^ 50"
    unfolding conv .
  then show ?thesis
    by (simp add: res_def k_def r3_def r2_def r1_def)
qed

lemma tenth_bounded:
  assumes "0 \<le> a" and "a \<le> 100"
  shows "0 \<le> fl (Math_round (fl (a * 10)) / 10)" and "fl (Math_round (fl (a * 10)) / 10) \<le> 100"
proof -
  define v where "v = fl (a * 10)"
  define k where "k = \<lfloor>v + 1 / 2\<rfloor>"
  have "0 \<le> a * 10" using assms by simp
  from fl_between [OF this, of "a * 10" 1000] assms
  have v: "0 \<le> v" "v \<le> 1000 * (1 + 1 / 2 ^ 53)"
    by (simp_all add: v_def fl_nonneg)
  have k0: "0 \<le> k" using v(1) by (simp add: k_def)
  have "v + 1 / 2 < 1001" using v(2) by simp
  then have "k < 1001" unfolding k_def by (simp add: floor_less_iff)
  then have k1: "k \<le> 1000" by simp
  have mr: "Math_round v / 10 = of_int k / 10" by (simp add: Math_round_def k_def)
  have "0 \<le> real_of_int k / 10" using k0 by simp
  then show "0 \<le> fl (Math_round (fl (a * 10)) / 10)"
    unfolding v_def [symmetric] mr by (rule fl_nonneg)
  show "fl (Math_round (fl (a * 10)) / 10) \<le> 100"
  proof (cases "k = 1000")
    case True
    then show ?thesis
      unfolding v_def [symmetric] mr using fl_of_int [of 100] by simp
  next
    case False
    with k1 have "k \<le> 999" by simp
    then have le: "real_of_int k / 10 \<le> 999 / 10" by simp
    from fl_between(2) [of "real_of_int k / 10" "real_of_int k / 10" "999 / 10"] k0 le
    have "fl (real_of_int k / 10) \<le> 999 / 10 * (1 + 1 / 2 ^ 53)" by simp
    then show ?thesis
      unfolding v_def [symmetric] mr by simp
  qed
qed

subsection \<open>Statistics\<close>

lemma braille_a:
  "convertToBraille lc defaultSettings [] (units ''a'') = [0x281A, 0x281A, 0x2801, 0x2812, 0x20, 0x2801]"
proof -
  have t: "findLongestContraction lc [] (units ''a'') = None"
    "handleProgrammingSymbol (units ''a'') ctx = None"
    "regularGlyph lc (code (CHR ''a'')) = [0x2801]" for ctx
    by (simp_all add: contraction_eval symbol_eval glyph_eval)
  have c: "snd (convertChars lc defaultSettings [] (units ''a'') ctx) = [0x2801]" for ctx
    using t by (simp add: units_Cons units_Nil convertChars_regular isDigitUnit_def code_def
        del: convertChars.simps(2))
  have w: "takeWhile isWhiteSpaceUnit (units ''a'') = []"
    by (simp add: units_def code_def isWhiteSpaceUnit_def)
  have n: "units ''a'' \<noteq> []" "0x0A \<notin> set (units ''a'')"
    by (simp_all add: units_def code_def)
  show ?thesis
    by (simp add: one_line [OF n] w c prefix_default del: convertChars.simps)
qed

lemma stats_a:
  "totalCharacters (snd (transliterate lc defaultSettings [] (units ''a''))) = 1"
  "brailleCells (snd (transliterate lc defaultSettings [] (units ''a''))) = 5"
  "compressionRatio (snd (transliterate lc defaultSettings [] (units ''a''))) = 500"
  "accuracy (snd (transliterate lc defaultSettings [] (units ''a''))) = Some 0"
proof -
  have l: "length (units ''a'') = 1" by (simp add: units_def)
  show "totalCharacters (snd (transliterate lc defaultSettings [] (units ''a''))) = 1"
    "brailleCells (snd (transliterate lc defaultSettings [] (units ''a''))) = 5"
    "compressionRatio (snd (transliterate lc defaultSettings [] (units ''a''))) = 500"
    "accuracy (snd (transliterate lc defaultSettings [] (units ''a''))) = Some 0"
    by (simp_all add: transliterate_def braille_a calculateStats_def Let_def isWhiteSpaceUnit_def
        Math_round_def l fl_numeral fl_neg_numeral fl_0)
qed

text \<open>
  Claim C9, as stated, fails: the stored compression ratio is a percentage.  For the
  text \<^verbatim>\<open>a\<close> (one character, five cells with the line number) it is 500, not 5.
\<close>

theorem compressionRatio_counterexample:
  "compressionRatio (snd (transliterate (\<lambda>s. s) defaultSettings [] (units ''a'')))
   \<noteq> real (brailleCells (snd (transliterate (\<lambda>s. s) defaultSettings [] (units ''a''))))
     / real (totalCharacters (snd (transliterate (\<lambda>s. s) defaultSettings [] (units ''a''))))"
  by (simp add: stats_a)

text \<open>
  The roundings count.  For a text of 160 characters that gives 23 cells the exact
  percentage is 14.375, which would round to 14.38; the three roundings before
  \<^verbatim>\<open>Math.round\<close> give 1437.4999999999998, and the stored ratio is the double nearest to
  14.37.
\<close>

lemma calculateStats_rounding_example:
  "compressionRatio (calculateStats (replicate 160 120) (replicate 23 0x282D))
     = 8089590830664253 / 2 ^ 49"
  "fl (1437 / 100) = 8089590830664253 / 2 ^ 49"
  "\<bar>8089590830664253 / 2 ^ 49 - 1437 / 100 :: real\<bar> < 1 / 2 ^ 50"
proof -
  have r1: "fl (23 / 160) = 5179139571476070 / 2 ^ 55"
    by (subst fl_at [where e = "-3"]) (simp_all add: roundTiesToEven_def)
  have r2: "fl (5179139571476070 / 2 ^ 55 * 100) = 8092405580431359 / 2 ^ 49"
    by (subst fl_at [where e = "3"]) (simp_all add: roundTiesToEven_def)
  have r3: "fl (8092405580431359 / 2 ^ 49 * 100) = 6322191859711999 / 2 ^ 42"
    by (subst fl_at [where e = "10"]) (simp_all add: roundTiesToEven_def)
  have m: "Math_round (6322191859711999 / 2 ^ 42) = 1437"
    by (simp add: Math_round_def)
  have r4: "fl (1437 / 100) = 8089590830664253 / 2 ^ 49"
    by (subst fl_at [where e = "3"]) (simp_all add: roundTiesToEven_def)
  have "compressionRatio (calculateStats (replicate 160 120) (replicate 23 0x282D))
     = fl (Math_round (fl (fl (fl (23 / 160) * 100) * 100)) / 100)"
    by (simp add: calculateStats_def Let_def isWhiteSpaceUnit_def)
  also have "\<dots> = 8089590830664253 / 2 ^ 49"
    unfolding r1 r2 r3 m r4 ..
  finally show "compressionRatio (calculateStats (replicate 160 120) (replicate 23 0x282D))
     = 8089590830664253 / 2 ^ 49" .
  show "fl (1437 / 100) = 8089590830664253 / 2 ^ 49" by (rule r4)
  show "\<bar>8089590830664253 / 2 ^ 49 - 1437 / 100 :: real\<bar> < 1 / 2 ^ 50" by simp
qed

text \<open>
  Claim C9, amended.  For every non-empty text, the stored compression ratio is the
  percentage 100 times the number of non-white-space cells divided by the number of
  characters, computed in double arithmetic and rounded to two decimals (the quotient
  times 100, times 100 again, \<^verbatim>\<open>Math.round\<close>, divided by 100, each operation rounding to a
  double): it differs from that percentage \<open>p\<close> by at most \<open>1 / 200 + (p + 1) / 2 ^ 50\<close>.
  The accuracy is a number from 0 to 100.
\<close>

theorem calculateStats_percent:
  assumes "originalText \<noteq> []"
  shows "totalCharacters (calculateStats originalText brailleText) = length originalText
       \<and> brailleCells (calculateStats originalText brailleText)
           = length (filter (\<lambda>u. \<not> isWhiteSpaceUnit u) brailleText)
       \<and> compressionRatio (calculateStats originalText brailleText)
           = fl (Math_round
                   (fl (fl (fl (real (brailleCells (calculateStats originalText brailleText))
                                / real (totalCharacters (calculateStats originalText brailleText)))
                            * 100) * 100)) / 100)
       \<and> \<bar>compressionRatio (calculateStats originalText brailleText)
            - 100 * (real (brailleCells (calculateStats originalText brailleText))
                     / real (totalCharacters (calculateStats originalText brailleText)))\<bar>
           \<le> 1 / 200
              + (100 * (real (brailleCells (calculateStats originalText brailleText))
                        / real (totalCharacters (calculateStats originalText brailleText))) + 1)
                / 2 ^ 50
       \<and> (\<exists>a. accuracy (calculateStats originalText brailleText) = Some a \<and> 0 \<le> a \<and> a \<le> 100)"
proof -
  define t where "t = length originalText"
  define b where "b = length (filter (\<lambda>u. \<not> isWhiteSpaceUnit u) brailleText)"
  define v where "v = min 100 (max 0 (fl (100 - fl (fl (\<bar>real t - real b\<bar> / real t) * 100))))"
  have t: "0 < t" using assms by (simp add: t_def)
  have tc: "totalCharacters (calculateStats originalText brailleText) = t"
    by (simp add: calculateStats_def Let_def t_def)
  have bc: "brailleCells (calculateStats originalText brailleText) = b"
    by (simp add: calculateStats_def Let_def b_def)
  have ratio: "compressionRatio (calculateStats originalText brailleText)
      = fl (Math_round (fl (fl (fl (real b / real t) * 100) * 100)) / 100)"
    using t by (simp add: calculateStats_def Let_def t_def b_def)
  have "0 \<le> real b / real t" by simp
  from percent_near [OF this]
  have close: "\<bar>compressionRatio (calculateStats originalText brailleText)
                 - 100 * (real b / real t)\<bar>
               \<le> 1 / 200 + (100 * (real b / real t) + 1) / 2 ^ 50"
    unfolding ratio .
  have acc: "accuracy (calculateStats originalText brailleText)
      = Some (fl (Math_round (fl (v * 10)) / 10))"
    using t by (simp add: calculateStats_def Let_def t_def b_def v_def)
  have v: "0 \<le> v" "v \<le> 100" by (simp_all add: v_def)
  from tenth_bounded [OF v] acc
  have ex: "\<exists>a. accuracy (calculateStats originalText brailleText) = Some a \<and> 0 \<le> a \<and> a \<le> 100"
    by blast
  from tc bc ratio close ex show ?thesis
    unfolding tc bc t_def b_def by blast
qed

theorem calculateStats_percent_witness:
  "units ''a'' \<noteq> []
   \<and> totalCharacters (calculateStats (units ''a'')
         (convertToBraille (\<lambda>s. s) defaultSettings [] (units ''a''))) = 1
   \<and> brailleCells (calculateStats (units ''a'')
         (convertToBraille (\<lambda>s. s) defaultSettings [] (units ''a''))) = 5
   \<and> compressionRatio (calculateStats (units ''a'')
         (convertToBraille (\<lambda>s. s) defaultSettings [] (units ''a''))) = 500
   \<and> accuracy (calculateStats (units ''a'')
         (convertToBraille (\<lambda>s. s) defaultSettings [] (units ''a''))) = Some 0"
proof -
  have ne: "units ''a'' \<noteq> []" by (simp add: units_def)
  from calculateStats_percent [OF ne, of "convertToBraille (\<lambda>s. s) defaultSettings [] (units ''a'')"]
  show ?thesis
    using ne stats_a [of "\<lambda>s. s"] by (simp add: transliterate_def)
qed

end
